(* ===== verification/Prelude.thy ===== *)
theory Prelude
  imports Main
begin

text \<open>
  Shared vocabulary of the development. The gateway of \<^verbatim>\<open>src/api/src/index.js\<close>
  exchanges JSON with HTTP clients, logs through \<^verbatim>\<open>console\<close>, and receives
  JavaScript exceptions from the blockchain client library; the types below name these
  values once for every component theory. The collection \<open>model_defs\<close> gathers the
  definitions of the model that the component proofs unfold, and \<open>lookup_last\<close>
  is the property read of a parsed JSON object (the last duplicate key wins, as in
  \<^verbatim>\<open>JSON.parse\<close>).
\<close>

named_theorems model_defs "definitions of the model unfolded by the component proofs"

subsection \<open>JSON values, responses, errors and log lines\<close>

text \<open>
  A JSON value as \<^verbatim>\<open>express.json()\<close> produces it and as \<^verbatim>\<open>res.json\<close> sends it.
  Numbers are integers here: the gateway only ever sends block numbers, and a fractional
  request value is rejected by the contract binding like any other value it cannot encode.
  An object keeps its members in source order, duplicates included.
\<close>

datatype json =
    JNull
  | JBool bool
  | JNum int
  | JStr string
  | JArr "json list"
  | JObj "(string \<times> json) list"

text \<open>The body of an HTTP response: JSON from \<^verbatim>\<open>res.json\<close>, or Express's own text.\<close>

datatype payload = PJson json | PText string

record response =
  status :: nat
  body :: payload

text \<open>
  The exceptions that reach the handlers' \<^verbatim>\<open>catch\<close> blocks: a failed RPC round trip,
  a contract call that reverts or returns no data, a JavaScript \<^verbatim>\<open>TypeError\<close>
  (destructuring \<^verbatim>\<open>undefined\<close>, reading a field of \<^verbatim>\<open>null\<close>), an argument
  the contract binding cannot encode, and a Hardhat error (no artifact for a contract name).
\<close>

datatype err =
    RpcError string
  | CallException string
  | TypeError string
  | InvalidArgument string
  | HardhatError string

text \<open>
  One line of console output: \<^verbatim>\<open>console.log(...)\<close>, \<^verbatim>\<open>console.error(msg)\<close>,
  \<^verbatim>\<open>console.error(msg, err)\<close> or \<^verbatim>\<open>console.error(err)\<close>.
\<close>

datatype logline =
    Out "json list"
  | ErrLine string
  | ErrOut string err
  | ErrVal err

type_synonym addr = string
type_synonym txhash = string

subsection \<open>Property read on a parsed object\<close>

fun lookup_last :: "(string \<times> 'v) list \<Rightarrow> string \<Rightarrow> 'v option" where
  "lookup_last [] k = None"
| "lookup_last ((k', v) # kvs) k =
     (case lookup_last kvs k of
        Some v' \<Rightarrow> Some v'
      | None \<Rightarrow> if k = k' then Some v else None)"

lemma lookup_last_map_of: "lookup_last kvs k = map_of (rev kvs) k"
  by (induction kvs) (auto simp: map_add_def split: option.splits)

lemma lookup_last_None_iff [simp]: "lookup_last kvs k = None \<longleftrightarrow> k \<notin> fst ` set kvs"
  by (simp add: lookup_last_map_of map_of_eq_None_iff)

lemma lookup_last_append_single [simp]:
  "lookup_last (kvs @ [(k, v)]) k = Some v"
  by (simp add: lookup_last_map_of)

subsection \<open>Generic facts shared by the components\<close>

lemma case_sum_same [simp]: "(case s of Inl a \<Rightarrow> f | Inr b \<Rightarrow> f) = f"
  by (cases s) simp_all

lemma Some_eq_case_option_iff:
  "(case x of None \<Rightarrow> None | Some y \<Rightarrow> f y) = Some r \<longleftrightarrow> (\<exists>y. x = Some y \<and> f y = Some r)"
  by (cases x) simp_all

end
