(* ===== verification/Config.thy ===== *)
theory Config
  imports Prelude
begin

text \<open>
  Start-up of the gateway, index.js lines 1, 9--35 and 73--77. After
  \<^verbatim>\<open>dotenv\<close> has merged \<^verbatim>\<open>.env\<close> into the environment (line 1), the process reads
  \<^verbatim>\<open>RPC_URL\<close>, \<^verbatim>\<open>PRIVATE_KEY\<close> and \<^verbatim>\<open>SIMPLE_STORAGE_ADDRESS\<close> from
  \<^verbatim>\<open>process.env\<close> and exits with code 1 when one of them is falsy (unset or the empty
  string); otherwise it builds the wallet, which throws on a malformed key, binds the
  contract, and listens on \<^verbatim>\<open>process.env.PORT || 3001\<close>. The environment is a map
  from names to strings; \<open>startup\<close> returns how module initialisation ends. The
  key check of the \<^verbatim>\<open>ethers.Wallet\<close> constructor is a parameter \<open>valid_key\<close>,
  since the library is not part of the repository.
\<close>

type_synonym env = "string \<rightharpoonup> string"

text \<open>\<^verbatim>\<open>!process.env.X\<close>: JavaScript truthiness of an optional string.\<close>

definition env_falsy :: "string option \<Rightarrow> bool" where
  "env_falsy v \<longleftrightarrow> (case v of None \<Rightarrow> True | Some s \<Rightarrow> s = [])"

datatype port = PortText string | PortNum nat

record config =
  rpc_url :: string
  private_key :: string
  storage_address :: addr
  listen_port :: port

datatype startup =
    Exited nat "logline list"
  | Crashed err
  | Listening config "logline list"

definition missing_env_msg :: string where
  "missing_env_msg = ''Faltando RPC_URL, PRIVATE_KEY ou SIMPLE_STORAGE_ADDRESS no .env''"

text \<open>\<^verbatim>\<open>const PORT = process.env.PORT || 3001\<close>.\<close>

definition port_of :: "env \<Rightarrow> port" where
  "port_of env =
     (if env_falsy (env ''PORT'') then PortNum 3001 else PortText (the (env ''PORT'')))"

text \<open>
  Module initialisation in source order: the check and \<^verbatim>\<open>process.exit(1)\<close>
  (lines 14--17), the wallet (line 21), the contract binding (lines 31--35), and
  \<^verbatim>\<open>app.listen\<close> followed by the synchronous log line 77. The balance report of
  lines 23--28 runs asynchronously, catches its own errors, and does not affect the
  outcome.
\<close>

definition startup :: "(string \<Rightarrow> bool) \<Rightarrow> env \<Rightarrow> startup" where
  "startup valid_key env =
     (if env_falsy (env ''RPC_URL'') \<or> env_falsy (env ''PRIVATE_KEY'')
         \<or> env_falsy (env ''SIMPLE_STORAGE_ADDRESS'')
      then Exited 1 [ErrLine missing_env_msg]
      else if \<not> valid_key (the (env ''PRIVATE_KEY''))
      then Crashed (InvalidArgument ''invalid private key'')
      else Listening
        \<lparr>rpc_url = the (env ''RPC_URL''), private_key = the (env ''PRIVATE_KEY''),
         storage_address = the (env ''SIMPLE_STORAGE_ADDRESS''), listen_port = port_of env\<rparr>
        [Out [JStr ''API Web3 up!'']])"

text \<open>
  \<^verbatim>\<open>require("dotenv").config()\<close> (line 1) runs before anything reads the
  environment. It parses \<^verbatim>\<open>.env\<close> into an object, in which a later line for a
  name replaces an earlier one, and copies each parsed name into \<^verbatim>\<open>process.env\<close>
  unless \<^verbatim>\<open>process.env\<close> already has it, even with the empty string (no
  \<^verbatim>\<open>override\<close>). A missing file leaves the environment as it is: \<^verbatim>\<open>config\<close>
  returns the error and throws nothing. The line syntax belongs to the library, so the
  file is given by its (name, value) pairs in file order, or \<open>None\<close> when absent.
\<close>

definition dotenv_parse :: "(string \<times> string) list \<Rightarrow> env" where
  "dotenv_parse kvs = map_of (rev kvs)"

definition dotenv_config :: "(string \<times> string) list option \<Rightarrow> env \<Rightarrow> env" where
  "dotenv_config file penv = (case file of None \<Rightarrow> penv | Some kvs \<Rightarrow> dotenv_parse kvs ++ penv)"

lemma env_falsy_iff: "\<not> env_falsy v \<longleftrightarrow> (\<exists>s. v = Some s \<and> s \<noteq> [])"
  by (cases v) (simp_all add: env_falsy_def)

text \<open>
  C8: the process exits with code 1, before any server exists, exactly when one of the
  three required variables is unset or empty.
\<close>

theorem startup_exits_iff_missing:
  "(\<exists>ls. startup valid_key env = Exited 1 ls) \<longleftrightarrow>
   (env ''RPC_URL'' \<in> {None, Some []} \<or> env ''PRIVATE_KEY'' \<in> {None, Some []}
    \<or> env ''SIMPLE_STORAGE_ADDRESS'' \<in> {None, Some []})"
  by (auto simp: startup_def env_falsy_def split: option.splits)

theorem startup_exits_iff_missing_witness:
  "startup (\<lambda>_. True) [''RPC_URL'' \<mapsto> ''http://127.0.0.1:8545'', ''PRIVATE_KEY'' \<mapsto> '''']
     = Exited 1 [ErrLine missing_env_msg]
   \<and> [''RPC_URL'' \<mapsto> ''http://127.0.0.1:8545'', ''PRIVATE_KEY'' \<mapsto> ''''] ''PRIVATE_KEY'' \<in> {None, Some []}"
proof -
  have "\<exists>ls. startup (\<lambda>_. True) [''RPC_URL'' \<mapsto> ''http://127.0.0.1:8545'', ''PRIVATE_KEY'' \<mapsto> '''']
          = Exited 1 ls"
    using startup_exits_iff_missing [of "\<lambda>_. True" "[''RPC_URL'' \<mapsto> ''http://127.0.0.1:8545'', ''PRIVATE_KEY'' \<mapsto> '''']"]
    by simp
  then show ?thesis by (auto simp: startup_def env_falsy_def)
qed

text \<open>
  C9: when the server starts, its configuration is the environment's values, all three
  non-empty, and the port is \<^verbatim>\<open>PORT\<close> when that is a non-empty string, else 3001.
\<close>

theorem startup_listening_config:
  assumes "startup valid_key env = Listening cfg ls"
  shows "env ''RPC_URL'' = Some (rpc_url cfg) \<and> rpc_url cfg \<noteq> []
       \<and> env ''PRIVATE_KEY'' = Some (private_key cfg) \<and> private_key cfg \<noteq> []
       \<and> valid_key (private_key cfg)
       \<and> env ''SIMPLE_STORAGE_ADDRESS'' = Some (storage_address cfg) \<and> storage_address cfg \<noteq> []
       \<and> listen_port cfg = (case env ''PORT'' of Some p \<Rightarrow> if p = [] then PortNum 3001 else PortText p
                            | None \<Rightarrow> PortNum 3001)
       \<and> ls = [Out [JStr ''API Web3 up!'']]"
  using assms
  by (auto simp: startup_def port_of_def env_falsy_def split: if_splits option.splits)

theorem startup_listening_config_witness:
  "startup (\<lambda>k. k = ''0xab'') [''RPC_URL'' \<mapsto> ''http://127.0.0.1:8545'', ''PRIVATE_KEY'' \<mapsto> ''0xab'',
       ''SIMPLE_STORAGE_ADDRESS'' \<mapsto> ''0x5f'']
     = Listening \<lparr>rpc_url = ''http://127.0.0.1:8545'', private_key = ''0xab'',
                  storage_address = ''0x5f'', listen_port = PortNum 3001\<rparr> [Out [JStr ''API Web3 up!'']]
   \<and> listen_port \<lparr>rpc_url = ''http://127.0.0.1:8545'', private_key = ''0xab'',
                  storage_address = ''0x5f'', listen_port = PortNum 3001\<rparr> = PortNum 3001"
proof -
  have run: "startup (\<lambda>k. k = ''0xab'') [''RPC_URL'' \<mapsto> ''http://127.0.0.1:8545'', ''PRIVATE_KEY'' \<mapsto> ''0xab'',
       ''SIMPLE_STORAGE_ADDRESS'' \<mapsto> ''0x5f'']
     = Listening \<lparr>rpc_url = ''http://127.0.0.1:8545'', private_key = ''0xab'',
                  storage_address = ''0x5f'', listen_port = PortNum 3001\<rparr> [Out [JStr ''API Web3 up!'']]"
    by (simp add: startup_def env_falsy_def port_of_def)
  from startup_listening_config [OF run] show ?thesis using run by simp
qed

text \<open>
  C23: with the \<^verbatim>\<open>.env\<close> file loaded first, the process exits with code 1 exactly
  when one of the three required names is set to the empty string in the process
  environment, or is absent there and the file is missing, does not set it, or sets it
  last to the empty string. A variable exported empty in the shell shadows the file.
\<close>

theorem startup_exits_with_dotenv:
  "(\<exists>ls. startup valid_key (dotenv_config file penv) = Exited 1 ls) \<longleftrightarrow>
   (\<exists>k \<in> {''RPC_URL'', ''PRIVATE_KEY'', ''SIMPLE_STORAGE_ADDRESS''}.
      penv k = Some [] \<or> (penv k = None \<and> (\<forall>kvs. file = Some kvs \<longrightarrow> env_falsy (map_of (rev kvs) k))))"
  by (auto simp: startup_def dotenv_config_def dotenv_parse_def env_falsy_def map_add_def
      split: option.splits)

theorem startup_exits_with_dotenv_witness:
  "startup (\<lambda>_. True)
     (dotenv_config (Some [(''RPC_URL'', ''http://127.0.0.1:8545''), (''PRIVATE_KEY'', ''0xab''),
                           (''SIMPLE_STORAGE_ADDRESS'', ''0x5f'')]) [''PRIVATE_KEY'' \<mapsto> ''''])
   = Exited 1 [ErrLine missing_env_msg]"
proof -
  have "\<exists>ls. startup (\<lambda>_. True)
     (dotenv_config (Some [(''RPC_URL'', ''http://127.0.0.1:8545''), (''PRIVATE_KEY'', ''0xab''),
                           (''SIMPLE_STORAGE_ADDRESS'', ''0x5f'')]) [''PRIVATE_KEY'' \<mapsto> ''''])
     = Exited 1 ls"
    using startup_exits_with_dotenv [of "\<lambda>_. True"
        "Some [(''RPC_URL'', ''http://127.0.0.1:8545''), (''PRIVATE_KEY'', ''0xab''),
               (''SIMPLE_STORAGE_ADDRESS'', ''0x5f'')]" "[''PRIVATE_KEY'' \<mapsto> '''']"]
    by simp
  then show ?thesis by (auto simp: startup_def dotenv_config_def env_falsy_def map_add_def)
qed

end
