(* ===== verification/Decimal.thy ===== *)
theory Decimal
  imports Prelude
begin

text \<open>
  Decimal text of integers. \<^verbatim>\<open>GET /value\<close> answers with \<^verbatim>\<open>value.toString()\<close>
  (index.js line 41), where \<^verbatim>\<open>value\<close> is the \<^verbatim>\<open>bigint\<close> the contract binding
  returns: the shortest decimal numeral, with a leading minus sign for a negative value.
  \<open>nat_to_string\<close> and \<open>int_to_string\<close> model that conversion; \<open>parse_int\<close> is
  the decoder a client applies to the string, and the lemmas show that it recovers the
  exact integer (no rounding through a JavaScript \<^verbatim>\<open>number\<close>), that the text is
  canonical, and hence that distinct stored values give distinct answers.
\<close>

subsection \<open>BigInt.prototype.toString (radix 10)\<close>

definition digit_char :: "nat \<Rightarrow> char" where
  "digit_char d = char_of (48 + d)"

fun nat_to_string :: "nat \<Rightarrow> string" where
  "nat_to_string n =
     (if n < 10 then [digit_char n]
      else nat_to_string (n div 10) @ [digit_char (n mod 10)])"

declare nat_to_string.simps [simp del]

definition int_to_string :: "int \<Rightarrow> string" where
  "int_to_string i =
     (if i < 0 then CHR ''-'' # nat_to_string (nat (- i)) else nat_to_string (nat i))"

subsection \<open>The client's decoder\<close>

definition char_digit :: "char \<Rightarrow> nat option" where
  "char_digit c = (let k = of_char c in if 48 \<le> k \<and> k < 58 then Some (k - 48) else None)"

fun digits_value :: "nat \<Rightarrow> string \<Rightarrow> nat option" where
  "digits_value acc [] = Some acc"
| "digits_value acc (c # cs) =
     (case char_digit c of None \<Rightarrow> None | Some d \<Rightarrow> digits_value (10 * acc + d) cs)"

definition parse_nat :: "string \<Rightarrow> nat option" where
  "parse_nat s = (if s = [] then None else digits_value 0 s)"

definition parse_int :: "string \<Rightarrow> int option" where
  "parse_int s =
     (case s of
        c # t \<Rightarrow> if c = CHR ''-'' then map_option (\<lambda>n. - int n) (parse_nat t)
                 else map_option int (parse_nat s)
      | [] \<Rightarrow> None)"

text \<open>Canonical decimal text: digits only, and no leading zero unless the text is \<open>0\<close>.\<close>

definition is_digit :: "char \<Rightarrow> bool" where
  "is_digit c \<longleftrightarrow> char_digit c \<noteq> None"

definition canonical_nat_text :: "string \<Rightarrow> bool" where
  "canonical_nat_text s \<longleftrightarrow>
     s \<noteq> [] \<and> list_all is_digit s \<and> (hd s = CHR ''0'' \<longrightarrow> s = ''0'')"

text \<open>Canonical text of an integer: a canonical numeral, or a minus sign and a non-zero one.\<close>

definition canonical_int_text :: "string \<Rightarrow> bool" where
  "canonical_int_text s \<longleftrightarrow>
     (case s of
        [] \<Rightarrow> False
      | c # t \<Rightarrow> if c = CHR ''-'' then canonical_nat_text t \<and> t \<noteq> ''0'' else canonical_nat_text s)"

subsection \<open>Digits\<close>

lemma nat_to_string_small [simp]: "n < 10 \<Longrightarrow> nat_to_string n = [digit_char n]"
  by (subst nat_to_string.simps) simp

lemma nat_to_string_big: "\<not> n < 10 \<Longrightarrow> nat_to_string n = nat_to_string (n div 10) @ [digit_char (n mod 10)]"
  by (subst nat_to_string.simps) simp

lemma char_digit_digit_char [simp]: "d < 10 \<Longrightarrow> char_digit (digit_char d) = Some d"
  by (simp add: char_digit_def digit_char_def Let_def)

lemma digit_char_0 [simp]: "digit_char 0 = CHR ''0''"
  unfolding digit_char_def by code_simp

lemma char_digit_zero [simp]: "char_digit (CHR ''0'') = Some 0"
  by (simp add: char_digit_def)

lemma is_digit_digit_char [simp]: "d < 10 \<Longrightarrow> is_digit (digit_char d)"
  by (simp add: is_digit_def)

lemma digit_char_inj: "d < 10 \<Longrightarrow> e < 10 \<Longrightarrow> digit_char d = digit_char e \<longleftrightarrow> d = e"
  by (metis char_digit_digit_char option.inject)

lemma digits_value_append:
  "digits_value acc (xs @ ys) =
     (case digits_value acc xs of None \<Rightarrow> None | Some a \<Rightarrow> digits_value a ys)"
  by (induction acc xs rule: digits_value.induct) (simp_all split: option.splits)

lemma nat_to_string_nonempty [simp]: "nat_to_string n \<noteq> []"
  by (subst nat_to_string.simps) simp

lemma digits_value_nat_to_string:
  "digits_value acc (nat_to_string n) = Some (acc * 10 ^ length (nat_to_string n) + n)"
proof (induction n arbitrary: acc rule: nat_to_string.induct)
  case (1 n)
  show ?case
  proof (cases "n < 10")
    case True
    then show ?thesis by (subst (1 2) nat_to_string.simps) simp
  next
    case False
    let ?L = "length (nat_to_string (n div 10))"
    have "digits_value acc (nat_to_string n)
          = digits_value (acc * 10 ^ ?L + n div 10) [digit_char (n mod 10)]"
      using False "1.IH" by (subst nat_to_string.simps) (simp add: digits_value_append)
    also have "\<dots> = Some (acc * 10 ^ Suc ?L + n)"
      by (simp add: algebra_simps)
    finally show ?thesis
      using False by (subst (2) nat_to_string.simps) simp
  qed
qed

lemma parse_nat_nat_to_string [simp]: "parse_nat (nat_to_string n) = Some n"
  by (simp add: parse_nat_def digits_value_nat_to_string)

lemma nat_to_string_digits: "list_all is_digit (nat_to_string n)"
proof (induction n rule: nat_to_string.induct)
  case (1 n)
  then show ?case
    by (subst nat_to_string.simps) simp
qed

lemma hd_nat_to_string_not_minus [simp]: "hd (nat_to_string n) \<noteq> CHR ''-''"
proof -
  have "is_digit (hd (nat_to_string n))"
    using nat_to_string_digits [of n] by (cases "nat_to_string n") auto
  then show ?thesis by (auto simp: is_digit_def char_digit_def)
qed

lemma hd_nat_to_string_zero:
  "hd (nat_to_string n) = CHR ''0'' \<Longrightarrow> n = 0"
proof (induction n rule: nat_to_string.induct)
  case (1 n)
  show ?case
  proof (cases "n < 10")
    case True
    with "1.prems" have "char_digit (digit_char n) = char_digit (CHR ''0'')"
      by (subst (asm) nat_to_string.simps) simp
    with True show ?thesis by simp
  next
    case False
    with "1.prems" have "hd (nat_to_string (n div 10)) = CHR ''0''"
      by (subst (asm) nat_to_string.simps) simp
    with False "1.IH" show ?thesis by simp
  qed
qed

lemma nat_to_string_0 [simp]: "nat_to_string 0 = ''0''"
  by (subst nat_to_string.simps) simp

lemma canonical_nat_to_string: "canonical_nat_text (nat_to_string n)"
proof -
  have "hd (nat_to_string n) = CHR ''0'' \<longrightarrow> nat_to_string n = ''0''"
    using hd_nat_to_string_zero [of n] by (cases "n = 0") auto
  then show ?thesis
    unfolding canonical_nat_text_def using nat_to_string_digits [of n] by simp
qed

subsection \<open>Roundtrip and canonical form of the GET answer\<close>

lemma parse_int_nat_to_string [simp]: "parse_int (nat_to_string n) = Some (int n)"
proof (cases "nat_to_string n")
  case Nil
  then show ?thesis by simp
next
  case (Cons c t)
  have "c \<noteq> CHR ''-''"
    using hd_nat_to_string_not_minus [of n] Cons by simp
  then show ?thesis
    using Cons parse_nat_nat_to_string [of n] by (simp add: parse_int_def)
qed

lemma parse_int_of_int_to_string [simp]: "parse_int (int_to_string i) = Some i"
proof (cases "i < 0")
  case True
  then show ?thesis by (simp add: int_to_string_def parse_int_def)
next
  case False
  then show ?thesis by (simp add: int_to_string_def)
qed

lemma char_digit_Some: "char_digit c = Some d \<Longrightarrow> d < 10 \<and> c = digit_char d"
  by (auto simp: char_digit_def digit_char_def Let_def split: if_splits)

lemma canonical_nat_text_unique:
  "canonical_nat_text s \<Longrightarrow> parse_nat s = Some n \<Longrightarrow> s = nat_to_string n"
proof (induction s arbitrary: n rule: rev_induct)
  case Nil
  then show ?case by (simp add: canonical_nat_text_def)
next
  case (snoc c xs)
  obtain d where d: "char_digit c = Some d"
    using snoc.prems(1) by (auto simp: canonical_nat_text_def is_digit_def)
  then have d10: "d < 10" and c: "c = digit_char d" using char_digit_Some by blast+
  show ?case
  proof (cases "xs = []")
    case True
    then have "n = d" using snoc.prems(2) d by (simp add: parse_nat_def)
    then show ?thesis using True c d10 by simp
  next
    case False
    obtain a where a: "digits_value 0 xs = Some a" and n: "n = 10 * a + d"
      using snoc.prems(2) d False
      by (auto simp: parse_nat_def digits_value_append split: option.splits)
    have "length (xs @ [c]) \<noteq> length ''0''" using False by simp
    then have "xs @ [c] \<noteq> ''0''" by metis
    then have "hd xs \<noteq> CHR ''0''" using snoc.prems(1) False by (simp add: canonical_nat_text_def)
    then have cx: "canonical_nat_text xs"
      using snoc.prems(1) False by (simp add: canonical_nat_text_def)
    have xs: "xs = nat_to_string a"
      using snoc.IH [OF cx] a False by (simp add: parse_nat_def)
    have "a \<noteq> 0"
    proof
      assume "a = 0"
      then have "xs = ''0''" using xs by simp
      then show False using \<open>hd xs \<noteq> CHR ''0''\<close> by simp
    qed
    then have "\<not> n < 10" using n by simp
    moreover have "n div 10 = a" and "n mod 10 = d" using n d10 by simp_all
    ultimately show ?thesis using xs c by (simp add: nat_to_string_big)
  qed
qed

lemma canonical_int_text_int_to_string: "canonical_int_text (int_to_string i)"
proof (cases "i < 0")
  case True
  have "nat (- i) \<noteq> 0" using True by simp
  then have "nat_to_string (nat (- i)) \<noteq> nat_to_string 0"
    by (metis parse_nat_nat_to_string option.inject)
  then show ?thesis using True
    by (simp add: int_to_string_def canonical_int_text_def canonical_nat_to_string)
next
  case False
  obtain c t where ct: "nat_to_string (nat i) = c # t"
    using nat_to_string_nonempty by (cases "nat_to_string (nat i)") auto
  have "c \<noteq> CHR ''-''" using hd_nat_to_string_not_minus [of "nat i"] ct by simp
  then show ?thesis using False ct canonical_nat_to_string [of "nat i"]
    by (simp add: int_to_string_def canonical_int_text_def)
qed

text \<open>
  C7: the decimal text the gateway sends for a stored integer is exactly the canonical
  text that decodes to it: a text is canonical and decodes to \<open>i\<close> if and only if it
  is \<^verbatim>\<open>i.toString()\<close>. So the client recovers the exact integer, and no other
  canonical text denotes it.
\<close>

theorem int_text_roundtrip:
  "canonical_int_text s \<and> parse_int s = Some i \<longleftrightarrow> s = int_to_string i"
proof
  assume "s = int_to_string i"
  then show "canonical_int_text s \<and> parse_int s = Some i"
    using canonical_int_text_int_to_string by simp
next
  assume A: "canonical_int_text s \<and> parse_int s = Some i"
  then obtain c t where s: "s = c # t" by (cases s) (auto simp: canonical_int_text_def)
  show "s = int_to_string i"
  proof (cases "c = CHR ''-''")
    case True
    then have ct: "canonical_nat_text t" "t \<noteq> ''0''" using A s by (auto simp: canonical_int_text_def)
    obtain n where n: "parse_nat t = Some n" and i: "i = - int n"
      using A s True by (auto simp: parse_int_def)
    have t: "t = nat_to_string n" by (rule canonical_nat_text_unique [OF ct(1) n])
    then have "n \<noteq> 0" using ct(2) nat_to_string_0 by metis
    then show ?thesis using s True t i by (simp add: int_to_string_def)
  next
    case False
    then have cs: "canonical_nat_text s" using A s by (simp add: canonical_int_text_def)
    obtain n where n: "parse_nat s = Some n" and i: "i = int n"
      using A s False by (auto simp: parse_int_def)
    show ?thesis using canonical_nat_text_unique [OF cs n] i by (simp add: int_to_string_def)
  qed
qed

theorem int_text_roundtrip_witness:
  "canonical_int_text ''-305'' \<and> parse_int ''-305'' = Some (-305) \<and> ''-305'' = int_to_string (-305)"
proof -
  have s: "int_to_string (-305) = ''-305''"
    by (simp add: int_to_string_def) code_simp
  then show ?thesis using int_text_roundtrip [of "''-305''" "-305"] by simp
qed

corollary int_to_string_inj: "int_to_string i = int_to_string j \<longleftrightarrow> i = j"
  by (metis option.inject parse_int_of_int_to_string)

end
