(* ===== verification/Ledger.thy ===== *)
theory Ledger
  imports Decimal
begin

text \<open>
  The remote side of the gateway: the ledger node reached through \<^verbatim>\<open>RPC_URL\<close> and
  the deployed SimpleStorage contract. Neither is code under \<^verbatim>\<open>src/\<close>: the contract
  is modelled from the specification (a single stored integer, read by \<^verbatim>\<open>get\<close> and
  replaced by \<^verbatim>\<open>set\<close>, both atomic on the ledger), and the node is the environment in
  which the handlers' awaits resolve. A set transaction is submitted to a pending pool
  (\<open>submit\<close>), mined one per block in submission order (\<open>include_tx\<close>,
  \<open>mine_one\<close>), and \<^verbatim>\<open>tx.wait()\<close> resolves once its receipt exists
  (\<open>await_receipt\<close>, which mines until then and is \<open>None\<close> for a transaction the
  node never saw). Transaction hashes are modelled by a counter, \<open>tx_hash_of\<close>, which
  keeps the one property the gateway relies on: distinct submissions have distinct
  hashes. \<open>ledger_wf\<close> is the node's invariant and every operation keeps it.
\<close>

record receipt =
  rc_hash :: txhash
  rc_block :: nat

record tx =
  tx_hash :: txhash
  tx_to :: addr
  tx_arg :: int
  tx_create :: bool

record ledger =
  contracts :: "addr \<rightharpoonup> int"
  height :: nat
  mempool :: "tx list"
  receipts :: "txhash \<rightharpoonup> receipt"
  ntx :: nat

subsection \<open>The SimpleStorage contract\<close>

text \<open>\<^verbatim>\<open>get()\<close>: the stored value; an address without the contract answers no data.\<close>

definition storage_get :: "ledger \<Rightarrow> addr \<Rightarrow> err + int" where
  "storage_get l a =
     (case contracts l a of
        None \<Rightarrow> Inl (CallException ''could not decode result data'')
      | Some v \<Rightarrow> Inr v)"

text \<open>\<^verbatim>\<open>set(v)\<close> executed by a mined transaction: the stored value becomes \<open>v\<close>.\<close>

definition storage_set :: "addr \<Rightarrow> int \<Rightarrow> (addr \<rightharpoonup> int) \<Rightarrow> (addr \<rightharpoonup> int)" where
  "storage_set a v cs = (if a \<in> dom cs then cs(a \<mapsto> v) else cs)"

subsection \<open>The node\<close>

definition tx_hash_of :: "nat \<Rightarrow> txhash" where
  "tx_hash_of k = ''0x'' @ nat_to_string k"

text \<open>
  \<^verbatim>\<open>contract.set(value)\<close> as the node sees it: the binding encodes the argument
  (\<open>enc\<close>, the ABI coder; \<open>None\<close> when it rejects the value) and the signed
  transaction joins the pending pool under a fresh hash.
\<close>

definition submit :: "(json \<Rightarrow> int option) \<Rightarrow> addr \<Rightarrow> json \<Rightarrow> ledger \<Rightarrow> err + (txhash \<times> ledger)" where
  "submit enc a v l =
     (case enc v of
        None \<Rightarrow> Inl (InvalidArgument ''invalid BigNumberish value'')
      | Some n \<Rightarrow>
          let h = tx_hash_of (ntx l)
          in Inr (h, l\<lparr>mempool := mempool l @ [\<lparr>tx_hash = h, tx_to = a, tx_arg = n, tx_create = False\<rparr>],
                      ntx := Suc (ntx l)\<rparr>))"

text \<open>
  An argument coder of the kind \<open>submit\<close> takes: a \<^verbatim>\<open>uint256\<close> parameter accepts
  a decimal string in range, and an integral number in range that is a safe JavaScript
  integer (\<^verbatim>\<open>getBigInt\<close> refuses a number beyond \<^verbatim>\<open>Number.MAX_SAFE_INTEGER\<close>,
  \<open>2^53 - 1\<close>, with an overflow error, since its digits are no longer exact); it rejects
  everything else (\<^verbatim>\<open>null\<close> included). The gateway's theorems hold for every coder;
  this one is used in the concrete runs.
\<close>

definition abi_uint256 :: "json \<Rightarrow> int option" where
  "abi_uint256 j =
     (let ok = (\<lambda>i::int. if 0 \<le> i \<and> i < 2 ^ 256 then Some i else None)
      in case j of
           JNum i \<Rightarrow> if \<bar>i\<bar> \<le> 9007199254740991 then ok i else None
         | JStr s \<Rightarrow> Option.bind (parse_int s) ok
         | _ \<Rightarrow> None)"

text \<open>
  Contract creation, as \<^verbatim>\<open>SimpleStorage.deploy()\<close> sends it: a creation transaction
  whose address is determined by the sender's nonce (here the node's transaction counter),
  and a constructor that stores its argument (0 for SimpleStorage, whose constructor
  takes none: the Solidity default of a \<^verbatim>\<open>uint256\<close> state variable).
\<close>

definition contract_addr_of :: "nat \<Rightarrow> addr" where
  "contract_addr_of k = ''0xc'' @ nat_to_string k"

definition submit_create :: "ledger \<Rightarrow> txhash \<times> addr \<times> ledger" where
  "submit_create l =
     (let h = tx_hash_of (ntx l); a = contract_addr_of (ntx l)
      in (h, a, l\<lparr>mempool := mempool l @ [\<lparr>tx_hash = h, tx_to = a, tx_arg = 0, tx_create = True\<rparr>],
                  ntx := Suc (ntx l)\<rparr>))"

definition include_tx :: "tx \<Rightarrow> ledger \<Rightarrow> ledger" where
  "include_tx t l =
     l\<lparr>height := Suc (height l),
       contracts := (if tx_create t then (contracts l)(tx_to t \<mapsto> tx_arg t)
                     else storage_set (tx_to t) (tx_arg t) (contracts l)),
       receipts := (receipts l)(tx_hash t \<mapsto> \<lparr>rc_hash = tx_hash t, rc_block = Suc (height l)\<rparr>)\<rparr>"

definition mine_one :: "ledger \<Rightarrow> ledger" where
  "mine_one l = (case mempool l of [] \<Rightarrow> l | t # ts \<Rightarrow> include_tx t (l\<lparr>mempool := ts\<rparr>))"

function mine_until :: "txhash \<Rightarrow> ledger \<Rightarrow> ledger" where
  "mine_until h l =
     (if receipts l h \<noteq> None \<or> mempool l = [] then l else mine_until h (mine_one l))"
  by pat_completeness auto
termination
  by (relation "measure (\<lambda>(h, l). length (mempool l))")
     (auto simp: mine_one_def include_tx_def split: list.splits)

declare mine_until.simps [simp del]

definition await_receipt :: "txhash \<Rightarrow> ledger \<Rightarrow> (receipt \<times> ledger) option" where
  "await_receipt h l =
     (let l' = mine_until h l in map_option (\<lambda>r. (r, l')) (receipts l' h))"

text \<open>Mining a list of transactions one block each, in order.\<close>

fun mine_txs :: "tx list \<Rightarrow> ledger \<Rightarrow> ledger" where
  "mine_txs [] l = l"
| "mine_txs (t # ts) l = mine_txs ts (include_tx t l)"

subsection \<open>The node's invariant\<close>

definition issued :: "ledger \<Rightarrow> txhash \<Rightarrow> bool" where
  "issued l h \<longleftrightarrow> (\<exists>k < ntx l. h = tx_hash_of k)"

definition ledger_wf :: "ledger \<Rightarrow> bool" where
  "ledger_wf l \<longleftrightarrow>
     distinct (map tx_hash (mempool l))
     \<and> (\<forall>t \<in> set (mempool l). receipts l (tx_hash t) = None \<and> issued l (tx_hash t))
     \<and> (\<forall>h \<in> dom (receipts l). issued l h)"

lemmas ledger_defs [model_defs] =
  storage_get_def storage_set_def submit_def submit_create_def include_tx_def mine_one_def
  await_receipt_def

subsection \<open>Hashes\<close>

lemma tx_hash_of_inj [simp]: "tx_hash_of j = tx_hash_of k \<longleftrightarrow> j = k"
proof
  assume "tx_hash_of j = tx_hash_of k"
  then have "parse_nat (nat_to_string j) = parse_nat (nat_to_string k)"
    by (simp add: tx_hash_of_def)
  then show "j = k" by simp
qed simp

lemma issued_fresh [simp]: "\<not> issued l (tx_hash_of (ntx l))"
  by (simp add: issued_def)

subsection \<open>Mining\<close>

lemma include_tx_simps [simp]:
  "mempool (include_tx t l) = mempool l"
  "ntx (include_tx t l) = ntx l"
  "height (include_tx t l) = Suc (height l)"
  "receipts (include_tx t l) = (receipts l)(tx_hash t \<mapsto> \<lparr>rc_hash = tx_hash t, rc_block = Suc (height l)\<rparr>)"
  by (auto simp: include_tx_def)

lemma dom_contracts_include_tx: "dom (contracts l) \<subseteq> dom (contracts (include_tx t l))"
  by (auto simp: include_tx_def storage_set_def)

lemma include_tx_mempool_update [simp]:
  "include_tx t (l\<lparr>mempool := xs\<rparr>) = (include_tx t l)\<lparr>mempool := xs\<rparr>"
  by (simp add: include_tx_def)

lemma contracts_include_tx_to:
  "tx_create t \<or> tx_to t \<in> dom (contracts l) \<Longrightarrow> contracts (include_tx t l) (tx_to t) = Some (tx_arg t)"
  by (auto simp: include_tx_def storage_set_def)

lemma mine_txs_simps [simp]:
  "height (mine_txs ts l) = height l + length ts"
  "mempool (mine_txs ts l) = mempool l"
  "ntx (mine_txs ts l) = ntx l"
  by (induction ts arbitrary: l) simp_all

lemma dom_contracts_mine_txs: "dom (contracts l) \<subseteq> dom (contracts (mine_txs ts l))"
proof (induction ts arbitrary: l)
  case (Cons t ts)
  show ?case
    using dom_contracts_include_tx [of l t] Cons.IH [of "include_tx t l"] by simp
qed simp

lemma mine_txs_mempool_update:
  "mine_txs ts (l\<lparr>mempool := xs\<rparr>) = (mine_txs ts l)\<lparr>mempool := xs\<rparr>"
  by (induction ts arbitrary: l) simp_all

lemma receipts_mine_txs_other:
  "h \<notin> tx_hash ` set ts \<Longrightarrow> receipts (mine_txs ts l) h = receipts l h"
  by (induction ts arbitrary: l) auto

text \<open>
  Waiting for the transaction at position \<open>length ts\<close> of the pool mines exactly the
  transactions before it and then it, each in its own block.
\<close>

lemma mine_until_pending:
  assumes "mempool l = ts @ t # rest" and "tx_hash t \<notin> tx_hash ` set ts"
    and "receipts l (tx_hash t) = None"
  shows "mine_until (tx_hash t) l = include_tx t (mine_txs ts (l\<lparr>mempool := rest\<rparr>))"
  using assms
proof (induction ts arbitrary: l)
  case Nil
  then have "mine_until (tx_hash t) l = mine_until (tx_hash t) (include_tx t (l\<lparr>mempool := rest\<rparr>))"
    by (subst mine_until.simps) (simp add: mine_one_def)
  also have "\<dots> = include_tx t (l\<lparr>mempool := rest\<rparr>)"
    by (subst mine_until.simps) simp
  finally show ?case by simp
next
  case (Cons t' ts)
  let ?l1 = "include_tx t' (l\<lparr>mempool := ts @ t # rest\<rparr>)"
  have "mine_until (tx_hash t) l = mine_until (tx_hash t) ?l1"
    using Cons.prems by (subst mine_until.simps) (simp add: mine_one_def)
  also have "\<dots> = include_tx t (mine_txs ts (?l1\<lparr>mempool := rest\<rparr>))"
    using Cons.prems by (intro Cons.IH) auto
  finally show ?case by simp
qed

lemma receipts_mine_until:
  "h \<in> tx_hash ` set (mempool l) \<or> receipts l h \<noteq> None \<Longrightarrow> receipts (mine_until h l) h \<noteq> None"
proof (induction h l rule: mine_until.induct)
  case (1 h l)
  show ?case
  proof (cases "receipts l h \<noteq> None \<or> mempool l = []")
    case True
    with "1.prems" show ?thesis by (subst mine_until.simps) auto
  next
    case False
    then obtain t0 ts where mp: "mempool l = t0 # ts" by (cases "mempool l") auto
    have "h \<in> tx_hash ` set (mempool (mine_one l)) \<or> receipts (mine_one l) h \<noteq> None"
      using "1.prems" False mp by (auto simp: mine_one_def)
    with "1.IH" False show ?thesis by (subst mine_until.simps) simp
  qed
qed

corollary await_receipt_pending:
  "h \<in> tx_hash ` set (mempool l) \<or> receipts l h \<noteq> None \<Longrightarrow> await_receipt h l \<noteq> None"
  using receipts_mine_until [of h l] by (auto simp: await_receipt_def Let_def)

subsection \<open>Submission\<close>

lemma submit_Inr_iff:
  "submit enc a v l = Inr (h, l') \<longleftrightarrow>
   (\<exists>n. enc v = Some n \<and> h = tx_hash_of (ntx l)
        \<and> l' = l\<lparr>mempool := mempool l @ [\<lparr>tx_hash = h, tx_to = a, tx_arg = n, tx_create = False\<rparr>],
                  ntx := Suc (ntx l)\<rparr>)"
  by (auto simp: submit_def Let_def split: option.splits)

lemma submit_Inl_iff:
  "submit enc a v l = Inl e \<longleftrightarrow> enc v = None \<and> e = InvalidArgument ''invalid BigNumberish value''"
  by (auto simp: submit_def Let_def split: option.splits)

subsection \<open>Every node operation keeps the invariant\<close>

lemma issued_mono: "issued l h \<Longrightarrow> ntx l \<le> ntx l' \<Longrightarrow> issued l' h"
  by (auto simp: issued_def)

lemma submit_fresh:
  assumes "ledger_wf l"
  shows "tx_hash_of (ntx l) \<notin> tx_hash ` set (mempool l) \<and> receipts l (tx_hash_of (ntx l)) = None"
proof -
  have ni: "\<not> issued l (tx_hash_of (ntx l))" by simp
  from assms have "\<forall>t \<in> set (mempool l). issued l (tx_hash t)" "\<forall>h \<in> dom (receipts l). issued l h"
    by (auto simp: ledger_wf_def)
  with ni show ?thesis by (metis domIff image_iff)
qed

lemma ledger_wf_enqueue:
  assumes wf: "ledger_wf l" and h: "tx_hash t = tx_hash_of (ntx l)"
  shows "ledger_wf (l\<lparr>mempool := mempool l @ [t], ntx := Suc (ntx l)\<rparr>)"
proof -
  let ?l' = "l\<lparr>mempool := mempool l @ [t], ntx := Suc (ntx l)\<rparr>"
  have fresh: "tx_hash t \<notin> tx_hash ` set (mempool l)" "receipts l (tx_hash t) = None"
    using submit_fresh [OF wf] h by auto
  have "issued l h' \<Longrightarrow> issued ?l' h'" for h'
    by (auto intro: issued_mono)
  moreover have "issued ?l' (tx_hash t)"
    using h by (auto simp: issued_def)
  ultimately show ?thesis
    using wf fresh by (auto simp: ledger_wf_def)
qed

lemma ledger_wf_submit:
  assumes "ledger_wf l" and "submit enc a v l = Inr (h, l')"
  shows "ledger_wf l'"
  using assms ledger_wf_enqueue [OF assms(1)] by (auto simp: submit_Inr_iff)

lemma issued_include_tx [simp]:
  "issued (include_tx t l) = issued l" "issued (l\<lparr>mempool := xs\<rparr>) = issued l"
  by (simp_all add: issued_def fun_eq_iff)

lemma ledger_wf_mine_one: "ledger_wf l \<Longrightarrow> ledger_wf (mine_one l)"
proof (cases "mempool l")
  case (Cons t ts)
  assume wf: "ledger_wf l"
  then have "tx_hash t \<notin> tx_hash ` set ts" "issued l (tx_hash t)"
    using Cons by (auto simp: ledger_wf_def)
  with wf Cons show ?thesis
    by (auto simp: ledger_wf_def mine_one_def rev_image_eqI)
qed (simp add: mine_one_def)

lemma ledger_wf_mine_until: "ledger_wf l \<Longrightarrow> ledger_wf (mine_until h l)"
proof (induction h l rule: mine_until.induct)
  case (1 h l)
  then show ?case
    by (subst mine_until.simps) (simp add: ledger_wf_mine_one)
qed

lemma await_receipt_Some:
  "await_receipt h l = Some (rc, l') \<Longrightarrow> l' = mine_until h l \<and> receipts l' h = Some rc"
  by (auto simp: await_receipt_def Let_def)

lemma ledger_wf_await_receipt:
  "ledger_wf l \<Longrightarrow> await_receipt h l = Some (rc, l') \<Longrightarrow> ledger_wf l'"
  by (auto dest: await_receipt_Some intro: ledger_wf_mine_until)

subsection \<open>What waiting for a submitted transaction gives\<close>

text \<open>
  The contract the gateway relies on: a transaction just submitted to a well-formed node
  is mined after the ones already pending, in block \<open>height + pending + 1\<close>, and
  leaves its argument as the stored value of a deployed contract.
\<close>

lemma await_enqueued:
  assumes wf: "ledger_wf l" and h: "tx_hash t = tx_hash_of (ntx l)"
  shows "await_receipt (tx_hash t) (l\<lparr>mempool := mempool l @ [t], ntx := Suc (ntx l)\<rparr>) =
           Some (\<lparr>rc_hash = tx_hash t, rc_block = Suc (height l + length (mempool l))\<rparr>,
                 include_tx t (mine_txs (mempool l) ((l\<lparr>mempool := mempool l @ [t], ntx := Suc (ntx l)\<rparr>)\<lparr>mempool := []\<rparr>)))"
proof -
  let ?l1 = "l\<lparr>mempool := mempool l @ [t], ntx := Suc (ntx l)\<rparr>"
  have fresh: "tx_hash t \<notin> tx_hash ` set (mempool l)" "receipts l (tx_hash t) = None"
    using submit_fresh [OF wf] h by auto
  have "mine_until (tx_hash t) ?l1 = include_tx t (mine_txs (mempool l) (?l1\<lparr>mempool := []\<rparr>))"
    using mine_until_pending [of ?l1 "mempool l" t "[]"] fresh by simp
  then show ?thesis by (simp add: await_receipt_def)
qed

lemma await_submitted:
  assumes wf: "ledger_wf l" and sub: "submit enc a v l = Inr (h, l1)" and n: "enc v = Some n"
  shows "\<exists>l2. await_receipt h l1 =
                Some (\<lparr>rc_hash = h, rc_block = Suc (height l + length (mempool l))\<rparr>, l2)
             \<and> ledger_wf l2 \<and> (a \<in> dom (contracts l) \<longrightarrow> contracts l2 a = Some n)"
proof -
  let ?t = "\<lparr>tx_hash = h, tx_to = a, tx_arg = n, tx_create = False\<rparr>"
  have h: "h = tx_hash_of (ntx l)"
    and l1: "l1 = l\<lparr>mempool := mempool l @ [?t], ntx := Suc (ntx l)\<rparr>"
    using sub n by (auto simp: submit_Inr_iff)
  let ?m = "mine_txs (mempool l) (l1\<lparr>mempool := []\<rparr>)"
  have await: "await_receipt h l1 =
      Some (\<lparr>rc_hash = h, rc_block = Suc (height l + length (mempool l))\<rparr>, include_tx ?t ?m)"
    using await_enqueued [OF wf, of ?t] h l1 by simp
  have "ledger_wf (include_tx ?t ?m)"
    using ledger_wf_await_receipt [OF ledger_wf_submit [OF wf sub] await] .
  moreover have "a \<in> dom (contracts l) \<longrightarrow> contracts (include_tx ?t ?m) a = Some n"
    using contracts_include_tx_to [of ?t ?m]
      dom_contracts_mine_txs [of "l1\<lparr>mempool := []\<rparr>" "mempool l"] l1 by auto
  ultimately show ?thesis using await by blast
qed

text \<open>The same for a deployment: the creation is mined after the pending transactions.\<close>

lemma await_created:
  assumes wf: "ledger_wf l" and cr: "submit_create l = (h, a, l1)"
  shows "\<exists>l2. await_receipt h l1 =
                Some (\<lparr>rc_hash = h, rc_block = Suc (height l + length (mempool l))\<rparr>, l2)
             \<and> ledger_wf l2 \<and> contracts l2 a = Some 0 \<and> a = contract_addr_of (ntx l)"
proof -
  let ?t = "\<lparr>tx_hash = h, tx_to = a, tx_arg = 0, tx_create = True\<rparr>"
  have h: "h = tx_hash_of (ntx l)" and a: "a = contract_addr_of (ntx l)"
    and l1: "l1 = l\<lparr>mempool := mempool l @ [?t], ntx := Suc (ntx l)\<rparr>"
    using cr by (auto simp: submit_create_def Let_def)
  let ?m = "mine_txs (mempool l) (l1\<lparr>mempool := []\<rparr>)"
  have await: "await_receipt h l1 =
      Some (\<lparr>rc_hash = h, rc_block = Suc (height l + length (mempool l))\<rparr>, include_tx ?t ?m)"
    using await_enqueued [OF wf, of ?t] h l1 by simp
  have "ledger_wf l1" using ledger_wf_enqueue [OF wf, of ?t] h l1 by simp
  then have "ledger_wf (include_tx ?t ?m)"
    using ledger_wf_await_receipt [OF _ await] by blast
  moreover have "contracts (include_tx ?t ?m) a = Some 0"
    using contracts_include_tx_to [of ?t ?m] by simp
  ultimately show ?thesis using await a by blast
qed

lemma await_receipt_after_submit:
  "submit enc a v l = Inr (h, l1) \<Longrightarrow> await_receipt h l1 \<noteq> None"
  by (rule await_receipt_pending) (auto simp: submit_Inr_iff)

lemma await_receipt_after_create:
  "submit_create l = (h, a, l1) \<Longrightarrow> await_receipt h l1 \<noteq> None"
  by (rule await_receipt_pending) (auto simp: submit_create_def Let_def)

text \<open>What one block can store at an address: its old value or the argument of a pending
  transaction to it.\<close>

lemma contracts_mine_one:
  "contracts (mine_one l) a = contracts l a
   \<or> (\<exists>t \<in> set (mempool l). tx_to t = a \<and> contracts (mine_one l) a = Some (tx_arg t))"
  by (auto simp: mine_one_def include_tx_def storage_set_def split: list.split)

lemma mempool_mine_one: "set (mempool (mine_one l)) \<subseteq> set (mempool l)"
  by (auto simp: mine_one_def split: list.split)

text \<open>Mining and waiting never submit anything: the transaction counter is unchanged.\<close>

lemma ntx_mine_one [simp]: "ntx (mine_one l) = ntx l"
  by (simp add: mine_one_def split: list.split)

lemma ntx_mine_until [simp]: "ntx (mine_until h l) = ntx l"
proof (induction h l rule: mine_until.induct)
  case (1 h l)
  then show ?case by (subst mine_until.simps) simp
qed

lemma ntx_await_receipt: "await_receipt h l = Some (rc, l') \<Longrightarrow> ntx l' = ntx l"
  by (auto dest: await_receipt_Some)

end
