(* ===== verification/Program.thy ===== *)
theory Program
  imports Ledger
begin

text \<open>
  Await programs: the execution model shared by the gateway's handlers and the deploy
  script. An \<^verbatim>\<open>async\<close> function of the repository is a value of type \<open>'r prog\<close>
  whose constructors are its effects, in order: \<open>Log\<close> is a synchronous console line,
  and each \<open>Call\<close> constructor is one \<^verbatim>\<open>await\<close> on the blockchain client, carrying
  the continuation that receives the outcome (an exception as \<open>Inl\<close>, a value as
  \<open>Inr\<close>). The calls are those the sources make: \<^verbatim>\<open>contract.get()\<close>,
  \<^verbatim>\<open>contract.set(v)\<close>, \<^verbatim>\<open>tx.wait()\<close> in the gateway;
  \<^verbatim>\<open>getContractFactory(name)\<close>, \<^verbatim>\<open>deploy()\<close>, \<^verbatim>\<open>waitForDeployment()\<close>
  in the deploy script.

  \<open>run\<close> executes a program against the ledger of theory \<open>Ledger\<close>, with a list of
  network faults that says how each successive call ends: \<open>Ok\<close>, \<open>Down e\<close> (the
  request never reached the node) or \<open>Lost e\<close> (the node executed it and the reply was
  lost); an exhausted list means no more faults. It is \<open>None\<close> when the program never
  finishes: a wait for a transaction that is never mined. \<open>all_results P p\<close> says that
  every value \<open>p\<close> can return, whatever its calls answer, satisfies \<open>P\<close>, and
  \<open>run_all_results\<close> transfers it to every execution.
\<close>

datatype fault = Ok | Down err | Lost err

datatype 'r prog =
    Return 'r
  | Log logline "'r prog"
  | CallGet addr "err + int \<Rightarrow> 'r prog"
  | CallSet addr json "err + txhash \<Rightarrow> 'r prog"
  | CallWait txhash "err + receipt option \<Rightarrow> 'r prog"
  | CallFactory string "err + unit \<Rightarrow> 'r prog"
  | CallDeploy "err + txhash \<times> addr \<Rightarrow> 'r prog"
  | CallWaitDeploy txhash "err + unit \<Rightarrow> 'r prog"

subsection \<open>Running a program against the ledger\<close>

fun pop_fault :: "fault list \<Rightarrow> fault \<times> fault list" where
  "pop_fault [] = (Ok, [])"
| "pop_fault (f # fs) = (f, fs)"

primrec run :: "(json \<Rightarrow> int option) \<Rightarrow> fault list \<Rightarrow> 'r prog \<Rightarrow> ledger
                 \<Rightarrow> ('r \<times> logline list \<times> ledger) option" where
  "run enc fs (Return r) l = Some (r, [], l)"
| "run enc fs (Log x p) l = map_option (\<lambda>(r, ls, l'). (r, x # ls, l')) (run enc fs p l)"
| "run enc fs (CallGet a k) l =
     (case pop_fault fs of
        (Ok, fs') \<Rightarrow> run enc fs' (k (storage_get l a)) l
      | (Down e, fs') \<Rightarrow> run enc fs' (k (Inl e)) l
      | (Lost e, fs') \<Rightarrow> run enc fs' (k (Inl e)) l)"
| "run enc fs (CallSet a v k) l =
     (case pop_fault fs of
        (Ok, fs') \<Rightarrow>
          (case submit enc a v l of
             Inl e \<Rightarrow> run enc fs' (k (Inl e)) l
           | Inr (h, l') \<Rightarrow> run enc fs' (k (Inr h)) l')
      | (Down e, fs') \<Rightarrow> run enc fs' (k (Inl e)) l
      | (Lost e, fs') \<Rightarrow>
          (case submit enc a v l of
             Inl e' \<Rightarrow> run enc fs' (k (Inl e')) l
           | Inr (h, l') \<Rightarrow> run enc fs' (k (Inl e)) l'))"
| "run enc fs (CallWait h k) l =
     (case pop_fault fs of
        (Ok, fs') \<Rightarrow>
          (case await_receipt h l of
             None \<Rightarrow> None
           | Some (rc, l') \<Rightarrow> run enc fs' (k (Inr (Some rc))) l')
      | (Down e, fs') \<Rightarrow> run enc fs' (k (Inl e)) l
      | (Lost e, fs') \<Rightarrow> run enc fs' (k (Inl e)) (mine_until h l))"
| "run enc fs (CallFactory n k) l =
     (case pop_fault fs of
        (Ok, fs') \<Rightarrow>
          run enc fs' (k (if n = ''SimpleStorage'' then Inr ()
                          else Inl (HardhatError (''HH700: Artifact for contract '' @ n @ '' not found.'')))) l
      | (Down e, fs') \<Rightarrow> run enc fs' (k (Inl e)) l
      | (Lost e, fs') \<Rightarrow> run enc fs' (k (Inl e)) l)"
| "run enc fs (CallDeploy k) l =
     (case pop_fault fs of
        (Ok, fs') \<Rightarrow> (case submit_create l of (h, a, l') \<Rightarrow> run enc fs' (k (Inr (h, a))) l')
      | (Down e, fs') \<Rightarrow> run enc fs' (k (Inl e)) l
      | (Lost e, fs') \<Rightarrow> (case submit_create l of (h, a, l') \<Rightarrow> run enc fs' (k (Inl e)) l'))"
| "run enc fs (CallWaitDeploy h k) l =
     (case pop_fault fs of
        (Ok, fs') \<Rightarrow>
          (case await_receipt h l of
             None \<Rightarrow> None
           | Some (rc, l') \<Rightarrow> run enc fs' (k (Inr ())) l')
      | (Down e, fs') \<Rightarrow> run enc fs' (k (Inl e)) l
      | (Lost e, fs') \<Rightarrow> run enc fs' (k (Inl e)) (mine_until h l))"

subsection \<open>Properties of every result of a handler\<close>

text \<open>
  \<open>all_results P p\<close>: every response that \<open>p\<close> can return, along any outcomes of its
  awaits, satisfies \<open>P\<close>. It is the interface between the handlers and any
  execution of them: \<open>run\<close> here, the interleaving semantics of theory \<open>Server\<close>.
\<close>

inductive all_results :: "('r \<Rightarrow> bool) \<Rightarrow> 'r prog \<Rightarrow> bool" for P where
  all_Return: "P r \<Longrightarrow> all_results P (Return r)"
| all_Log: "all_results P p \<Longrightarrow> all_results P (Log x p)"
| all_CallGet: "(\<And>r. all_results P (k r)) \<Longrightarrow> all_results P (CallGet a k)"
| all_CallSet: "(\<And>r. all_results P (k r)) \<Longrightarrow> all_results P (CallSet a v k)"
| all_CallWait: "(\<And>r. all_results P (k r)) \<Longrightarrow> all_results P (CallWait h k)"
| all_CallFactory: "(\<And>r. all_results P (k r)) \<Longrightarrow> all_results P (CallFactory n k)"
| all_CallDeploy: "(\<And>r. all_results P (k r)) \<Longrightarrow> all_results P (CallDeploy k)"
| all_CallWaitDeploy: "(\<And>r. all_results P (k r)) \<Longrightarrow> all_results P (CallWaitDeploy h k)"

inductive_simps all_results_simps [simp]:
  "all_results P (Return r)" "all_results P (Log x p)" "all_results P (CallGet a k)"
  "all_results P (CallSet a v k)" "all_results P (CallWait h k)" "all_results P (CallFactory n k)"
  "all_results P (CallDeploy k)" "all_results P (CallWaitDeploy h k)"

lemma run_all_results:
  "all_results P p \<Longrightarrow> run enc fs p l = Some (r, ls, l') \<Longrightarrow> P r"
proof (induction p arbitrary: fs l ls l')
  case (Return x)
  then show ?case by simp
next
  case (Log x p)
  then show ?case by auto
next
  case (CallGet a k)
  then show ?case
    by (auto split: prod.splits fault.splits) (metis rangeI)+
next
  case (CallSet a v k)
  then show ?case
    by (auto split: prod.splits fault.splits sum.splits) (metis rangeI)+
next
  case (CallWait h k)
  then show ?case
    by (auto split: prod.splits fault.splits option.splits) (metis rangeI)+
next
  case (CallFactory n k)
  then show ?case
    by (auto split: prod.splits fault.splits if_splits) (metis rangeI)+
next
  case (CallDeploy k)
  then show ?case
    by (auto split: prod.splits fault.splits) (metis rangeI)+
next
  case (CallWaitDeploy h k)
  then show ?case
    by (auto split: prod.splits fault.splits option.splits) (metis rangeI)+
qed

lemma all_results_mono:
  "all_results P p \<Longrightarrow> (\<And>r. P r \<Longrightarrow> Q r) \<Longrightarrow> all_results Q p"
  by (induction rule: all_results.induct) auto
text \<open>
  \<open>sets_within Q p\<close>: every \<^verbatim>\<open>contract.set\<close> that \<open>p\<close> can issue, along any
  outcomes of its awaits, has a target and an argument satisfying \<open>Q\<close>; and \<open>p\<close>
  deploys nothing. It bounds what a program can write to the ledger.
\<close>

inductive sets_within :: "(addr \<Rightarrow> json \<Rightarrow> bool) \<Rightarrow> 'r prog \<Rightarrow> bool" for Q where
  sets_Return: "sets_within Q (Return r)"
| sets_Log: "sets_within Q p \<Longrightarrow> sets_within Q (Log x p)"
| sets_CallGet: "(\<And>r. sets_within Q (k r)) \<Longrightarrow> sets_within Q (CallGet a k)"
| sets_CallSet: "Q a v \<Longrightarrow> (\<And>r. sets_within Q (k r)) \<Longrightarrow> sets_within Q (CallSet a v k)"
| sets_CallWait: "(\<And>r. sets_within Q (k r)) \<Longrightarrow> sets_within Q (CallWait h k)"

inductive_simps sets_within_simps [simp]:
  "sets_within Q (Return r)" "sets_within Q (Log x p)" "sets_within Q (CallGet a k)"
  "sets_within Q (CallSet a v k)" "sets_within Q (CallWait h k)" "sets_within Q (CallFactory n k)"
  "sets_within Q (CallDeploy k)" "sets_within Q (CallWaitDeploy h k)"

text \<open>
  Post-processing a program's result (as Express does with a handler's response) commutes
  with running it.
\<close>

lemma run_map_prog:
  "run enc fs (map_prog f p) l = map_option (\<lambda>(r, ls, l'). (f r, ls, l')) (run enc fs p l)"
  by (induction p arbitrary: fs l)
     (auto simp: option.map_comp comp_def case_prod_beta split: fault.split sum.split option.split prod.split)

end
