(* ===== verification/Gateway.thy ===== *)
theory Gateway
  imports Config Program
begin

text \<open>
  The HTTP gateway, index.js lines 37--71. Each request handler is an \<^verbatim>\<open>async\<close>
  function whose only effects are its awaits on the contract binding and its console
  output, written as a program of theory \<open>Program\<close>: \<open>CallGet\<close> is
  \<^verbatim>\<open>await contract.get()\<close>, \<open>CallSet\<close> is \<^verbatim>\<open>await contract.set(value)\<close>,
  \<open>CallWait\<close> is \<^verbatim>\<open>await tx.wait()\<close>, \<open>Log\<close> a console line.
  \<open>get_value\<close> and \<open>post_value\<close> are the two route handlers, with the
  \<^verbatim>\<open>try\<close>/\<^verbatim>\<open>catch\<close> of each written out as the \<open>Inl\<close> branches; \<open>app\<close> is
  Express's dispatch of a request to them. The lemmas run them with \<open>run\<close> under any
  network faults, and state properties of all their responses with \<open>all_results\<close>.
\<close>

subsection \<open>Responses\<close>

definition json_response :: "nat \<Rightarrow> json \<Rightarrow> response" where
  "json_response s j = \<lparr>status = s, body = PJson j\<rparr>"

definition read_error_msg :: string where
  "read_error_msg = ''Erro ao ler valor''"

definition update_error_msg :: string where
  "update_error_msg = ''Erro ao atualizar valor''"

text \<open>\<^verbatim>\<open>"Campo 'value' \<acute>e obrigat\<acute>orio"\<close>, with its two accented letters in UTF-8.\<close>

definition value_required_msg :: string where
  "value_required_msg =
     ''Campo 'value' '' @ [CHR 0xC3, CHR 0xA9] @ '' obrigat'' @ [CHR 0xC3, CHR 0xB3] @ ''rio''"

subsection \<open>GET /value\<close>

definition get_value :: "addr \<Rightarrow> response prog" where
  "get_value a =
     CallGet a (\<lambda>r. case r of
       Inr v \<Rightarrow> Return (json_response 200 (JObj [(''value'', JStr (int_to_string v))]))
     | Inl e \<Rightarrow> Log (ErrOut ''Erro ao ler valor:'' e)
                  (Return (json_response 500 (JObj [(''error'', JStr read_error_msg)]))))"

subsection \<open>POST /value\<close>

text \<open>
  \<^verbatim>\<open>const { value } = req.body\<close>: destructuring \<^verbatim>\<open>undefined\<close> or \<^verbatim>\<open>null\<close>
  throws a \<^verbatim>\<open>TypeError\<close>; on an object it reads the property (the last duplicate
  key wins); on any other value it yields \<^verbatim>\<open>undefined\<close>, here \<open>None\<close>.
\<close>

definition destructure_value :: "json option \<Rightarrow> err + json option" where
  "destructure_value b =
     (case b of
        None \<Rightarrow> Inl (TypeError ''Cannot destructure property 'value' of 'req.body' as it is undefined.'')
      | Some JNull \<Rightarrow> Inl (TypeError ''Cannot destructure property 'value' of 'req.body' as it is null.'')
      | Some (JObj kvs) \<Rightarrow> Inr (lookup_last kvs ''value'')
      | Some _ \<Rightarrow> Inr None)"

text \<open>The \<^verbatim>\<open>catch\<close> block of lines 67--70.\<close>

definition update_failed :: "err \<Rightarrow> response prog" where
  "update_failed e =
     Log (ErrOut ''Erro ao atualizar valor:'' e)
       (Return (json_response 500 (JObj [(''error'', JStr update_error_msg)])))"

definition post_value :: "addr \<Rightarrow> json option \<Rightarrow> response prog" where
  "post_value a b =
     (case destructure_value b of
        Inl e \<Rightarrow> update_failed e
      | Inr None \<Rightarrow> Return (json_response 400 (JObj [(''error'', JStr value_required_msg)]))
      | Inr (Some v) \<Rightarrow>
          CallSet a v (\<lambda>r. case r of
            Inl e \<Rightarrow> update_failed e
          | Inr h \<Rightarrow>
              Log (Out [JStr ''Tx enviada:'', JStr h])
                (CallWait h (\<lambda>w. case w of
                   Inl e \<Rightarrow> update_failed e
                 | Inr None \<Rightarrow>
                     update_failed (TypeError ''Cannot read properties of null (reading 'blockNumber')'')
                 | Inr (Some rc) \<Rightarrow>
                     Log (Out [JStr ''Tx confirmada em bloco:'', JNum (int (rc_block rc))])
                       (Return (json_response 200
                          (JObj [(''txHash'', JStr h), (''blockNumber'', JNum (int (rc_block rc)))])))))))"

subsection \<open>Routing\<close>

datatype http_method = GET | HEAD | POST | Other string

record request =
  req_method :: http_method
  path :: string
  req_body :: "json option"

definition method_name :: "http_method \<Rightarrow> string" where
  "method_name m = (case m of GET \<Rightarrow> ''GET'' | HEAD \<Rightarrow> ''HEAD'' | POST \<Rightarrow> ''POST'' | Other s \<Rightarrow> s)"

definition lower_ascii :: "char \<Rightarrow> char" where
  "lower_ascii c =
     (let k = (of_char c :: nat) in if 65 \<le> k \<and> k \<le> 90 then char_of (k + 32) else c)"

text \<open>Express matches route paths case-insensitively and ignores one trailing slash.\<close>

definition value_route :: "string \<Rightarrow> bool" where
  "value_route p \<longleftrightarrow> map lower_ascii p = ''/value'' \<or> map lower_ascii p = ''/value/''"

definition not_found :: "request \<Rightarrow> response" where
  "not_found rq =
     \<lparr>status = 404, body = PText (''Cannot '' @ method_name (req_method rq) @ '' '' @ path rq)\<rparr>"

text \<open>
  Express's router answers an \<^verbatim>\<open>OPTIONS\<close> request for a path that has routes but
  no \<^verbatim>\<open>OPTIONS\<close> handler itself: 200 with the allowed methods of the matching
  routes, sorted and joined by \<^verbatim>\<open>", "\<close> (router 2 of Express 5; Express 4 joins them
  by \<^verbatim>\<open>","\<close>). The two routes of lines 38 and 49 allow \<^verbatim>\<open>GET\<close> (with its
  implicit \<^verbatim>\<open>HEAD\<close>) and \<^verbatim>\<open>POST\<close>.
\<close>

definition allow_list :: string where
  "allow_list = ''GET, HEAD, POST''"

definition options_reply :: response where
  "options_reply = \<lparr>status = 200, body = PText allow_list\<rparr>"

text \<open>
  \<^verbatim>\<open>app.get\<close> also serves \<^verbatim>\<open>HEAD\<close>, the router answers \<^verbatim>\<open>OPTIONS\<close>, and
  every other request falls through to Express's 404 handler.
\<close>

definition app :: "addr \<Rightarrow> request \<Rightarrow> response prog" where
  "app a rq =
     (if value_route (path rq) then
        (case req_method rq of
           GET \<Rightarrow> get_value a
         | HEAD \<Rightarrow> get_value a
         | POST \<Rightarrow> post_value a (req_body rq)
         | Other m \<Rightarrow> Return (if m = ''OPTIONS'' then options_reply else not_found rq))
      else Return (not_found rq))"

lemmas gateway_defs [model_defs] =
  get_value_def post_value_def update_failed_def destructure_value_def json_response_def

subsection \<open>Running the handlers\<close>

lemma run_update_failed [simp]:
  "run enc fs (update_failed e) l =
     Some (json_response 500 (JObj [(''error'', JStr update_error_msg)]),
           [ErrOut ''Erro ao atualizar valor:'' e], l)"
  by (simp add: update_failed_def)

lemma run_get_value:
  "run enc fs (get_value a) l =
     (let r = (case pop_fault fs of (Ok, _) \<Rightarrow> storage_get l a | (Down e, _) \<Rightarrow> Inl e
                                   | (Lost e, _) \<Rightarrow> Inl e)
      in case r of
           Inr v \<Rightarrow> Some (json_response 200 (JObj [(''value'', JStr (int_to_string v))]), [], l)
         | Inl e \<Rightarrow> Some (json_response 500 (JObj [(''error'', JStr read_error_msg)]),
                          [ErrOut ''Erro ao ler valor:'' e], l))"
  by (simp add: get_value_def split: prod.split fault.split sum.split)

text \<open>
  C2: with the RPC round trip succeeding, \<^verbatim>\<open>GET /value\<close> answers status 200 with the
  contract's stored value as a decimal string, logs nothing, and changes nothing.
\<close>

theorem get_value_reads_stored:
  assumes "contracts l a = Some v" and "fst (pop_fault fs) = Ok"
  shows "run enc fs (get_value a) l =
           Some (json_response 200 (JObj [(''value'', JStr (int_to_string v))]), [], l)"
  using assms by (cases fs) (auto simp: run_get_value storage_get_def)

theorem get_value_reads_stored_witness:
  "run (\<lambda>_. None) [] (get_value ''0x5f'')
       \<lparr>contracts = [''0x5f'' \<mapsto> 42], height = 0, mempool = [], receipts = Map.empty, ntx = 0\<rparr>
   = Some (json_response 200 (JObj [(''value'', JStr ''42'')]), [],
       \<lparr>contracts = [''0x5f'' \<mapsto> 42], height = 0, mempool = [], receipts = Map.empty, ntx = 0\<rparr>)"
proof -
  have "int_to_string 42 = ''42''"
    by (simp add: int_to_string_def) code_simp
  then show ?thesis
    using get_value_reads_stored [of "\<lparr>contracts = [''0x5f'' \<mapsto> 42], height = 0, mempool = [],
                                       receipts = Map.empty, ntx = 0\<rparr>" "''0x5f''" 42 "[]" "\<lambda>_. None"]
    by simp
qed

text \<open>
  C5: when the read fails, whether the RPC round trip fails or no contract answers at the
  configured address, the answer is status 500 with the fixed message, the exception is
  logged, and the ledger is unchanged.
\<close>

theorem get_value_errors:
  "run enc (Down e # fs) (get_value a) l =
     Some (json_response 500 (JObj [(''error'', JStr read_error_msg)]), [ErrOut ''Erro ao ler valor:'' e], l)
   \<and> (contracts l a = None \<longrightarrow>
      run enc (Ok # fs) (get_value a) l =
        Some (json_response 500 (JObj [(''error'', JStr read_error_msg)]),
              [ErrOut ''Erro ao ler valor:'' (CallException ''could not decode result data'')], l))"
  by (simp add: run_get_value storage_get_def)

theorem get_value_errors_witness:
  "run (\<lambda>_. None) [Ok] (get_value ''0x5f'')
       \<lparr>contracts = Map.empty, height = 0, mempool = [], receipts = Map.empty, ntx = 0\<rparr>
   = Some (json_response 500 (JObj [(''error'', JStr read_error_msg)]),
           [ErrOut ''Erro ao ler valor:'' (CallException ''could not decode result data'')],
           \<lparr>contracts = Map.empty, height = 0, mempool = [], receipts = Map.empty, ntx = 0\<rparr>)"
  using get_value_errors [of "\<lambda>_. None" _ "[]" "''0x5f''"
                          "\<lparr>contracts = Map.empty, height = 0, mempool = [], receipts = Map.empty, ntx = 0\<rparr>"]
  by simp

text \<open>
  C10: \<^verbatim>\<open>GET /value\<close> always answers, whatever the network does, and never changes
  the ledger.
\<close>

theorem get_value_read_only: "\<exists>r ls. run enc fs (get_value a) l = Some (r, ls, l)"
  by (simp add: run_get_value split: prod.split fault.split sum.split)

text \<open>
  C3: a JSON body that has no \<^verbatim>\<open>value\<close> field (an object without that key, or an array,
  string, number or boolean) is answered with status 400 and the fixed message, before
  any call to the contract: the handler is the bare response, so no transaction, no log
  line and no state change can follow, whatever the network does.
\<close>

theorem post_value_missing_field:
  assumes "(b = Some (JObj kvs) \<and> ''value'' \<notin> fst ` set kvs) \<or> b = Some (JArr xs) \<or> b = Some (JStr s)
           \<or> b = Some (JNum i) \<or> b = Some (JBool t)"
  shows "post_value a b = Return (json_response 400 (JObj [(''error'', JStr value_required_msg)]))"
proof -
  have "destructure_value b = Inr None"
    using assms by (auto simp: destructure_value_def)
  then show ?thesis by (simp add: post_value_def)
qed

theorem post_value_missing_field_witness:
  "post_value ''0x5f'' (Some (JObj [(''val'', JNum 7)]))
     = Return (json_response 400 (JObj [(''error'', JStr value_required_msg)]))"
  using post_value_missing_field [of "Some (JObj [(''val'', JNum 7)])" "[(''val'', JNum 7)]"]
  by simp

text \<open>
  C12: a request whose body was not parsed (\<^verbatim>\<open>req.body\<close> is \<^verbatim>\<open>undefined\<close>, as
  Express 5 leaves it without a JSON content type) makes the destructuring throw; the
  \<^verbatim>\<open>catch\<close> answers status 500, not the 400 of a missing field.
\<close>

theorem post_value_undefined_body:
  "run enc fs (post_value a None) l =
     Some (json_response 500 (JObj [(''error'', JStr update_error_msg)]),
           [ErrOut ''Erro ao atualizar valor:''
              (TypeError ''Cannot destructure property 'value' of 'req.body' as it is undefined.'')], l)"
  by (simp add: post_value_def destructure_value_def)

text \<open>
  C1: on a well-formed node where the contract is deployed, a body with a \<^verbatim>\<open>value\<close>
  the binding can encode is answered, when the network does not fail, with status 200,
  the hash of the transaction the handler submitted and the number of the block that
  mined it (after every transaction already pending); both log lines are written in
  order, the contract now stores the value, and the node is still well-formed.
\<close>

theorem post_value_confirmed:
  assumes wf: "ledger_wf l" and v: "lookup_last kvs ''value'' = Some v" and n: "enc v = Some n"
    and a: "a \<in> dom (contracts l)"
  shows "\<exists>l'. run enc [] (post_value a (Some (JObj kvs))) l =
            Some (json_response 200 (JObj [(''txHash'', JStr (tx_hash_of (ntx l))),
                    (''blockNumber'', JNum (int (Suc (height l + length (mempool l)))))]),
                  [Out [JStr ''Tx enviada:'', JStr (tx_hash_of (ntx l))],
                   Out [JStr ''Tx confirmada em bloco:'', JNum (int (Suc (height l + length (mempool l))))]],
                  l')
          \<and> contracts l' a = Some n
          \<and> receipts l' (tx_hash_of (ntx l)) =
               Some \<lparr>rc_hash = tx_hash_of (ntx l), rc_block = Suc (height l + length (mempool l))\<rparr>
          \<and> ledger_wf l'"
proof -
  let ?h = "tx_hash_of (ntx l)"
  let ?l1 = "l\<lparr>mempool := mempool l @ [\<lparr>tx_hash = ?h, tx_to = a, tx_arg = n, tx_create = False\<rparr>], ntx := Suc (ntx l)\<rparr>"
  have sub: "submit enc a v l = Inr (?h, ?l1)"
    using n by (simp add: submit_Inr_iff)
  obtain l2 where await: "await_receipt ?h ?l1 =
      Some (\<lparr>rc_hash = ?h, rc_block = Suc (height l + length (mempool l))\<rparr>, l2)"
    and wf2: "ledger_wf l2" and c2: "contracts l2 a = Some n"
    using await_submitted [OF wf sub n] a by blast
  have rc2: "receipts l2 ?h = Some \<lparr>rc_hash = ?h, rc_block = Suc (height l + length (mempool l))\<rparr>"
    using await_receipt_Some [OF await] by blast
  have "run enc [] (post_value a (Some (JObj kvs))) l =
          Some (json_response 200 (JObj [(''txHash'', JStr ?h),
                    (''blockNumber'', JNum (int (Suc (height l + length (mempool l)))))]),
                [Out [JStr ''Tx enviada:'', JStr ?h],
                 Out [JStr ''Tx confirmada em bloco:'', JNum (int (Suc (height l + length (mempool l))))]],
                l2)"
    using v sub await by (simp add: post_value_def destructure_value_def)
  with wf2 c2 rc2 show ?thesis by blast
qed

theorem post_value_confirmed_witness:
  "\<exists>l'. run abi_uint256 [] (post_value ''0x5f'' (Some (JObj [(''value'', JNum 7)])))
            \<lparr>contracts = [''0x5f'' \<mapsto> 0], height = 3, mempool = [], receipts = Map.empty, ntx = 0\<rparr> =
          Some (json_response 200 (JObj [(''txHash'', JStr (tx_hash_of 0)), (''blockNumber'', JNum 4)]),
                [Out [JStr ''Tx enviada:'', JStr (tx_hash_of 0)], Out [JStr ''Tx confirmada em bloco:'', JNum 4]],
                l')
        \<and> contracts l' ''0x5f'' = Some 7
        \<and> receipts l' (tx_hash_of 0) = Some \<lparr>rc_hash = tx_hash_of 0, rc_block = 4\<rparr>
        \<and> ledger_wf l'"
  using post_value_confirmed [of "\<lparr>contracts = [''0x5f'' \<mapsto> 0], height = 3, mempool = [],
                                  receipts = Map.empty, ntx = 0\<rparr>"
                               "[(''value'', JNum 7)]" "JNum 7" abi_uint256 7 "''0x5f''"]
  by (simp add: ledger_wf_def abi_uint256_def)

text \<open>
  The responses a handler can produce: the five JSON answers of index.js, the router's
  \<^verbatim>\<open>OPTIONS\<close> reply and Express's 404. A property of all of them holds of every result of \<open>app\<close>.
\<close>

lemma all_results_app:
  assumes "\<And>v. P (json_response 200 (JObj [(''value'', JStr (int_to_string v))]))"
    and "P (json_response 500 (JObj [(''error'', JStr read_error_msg)]))"
    and "P (json_response 500 (JObj [(''error'', JStr update_error_msg)]))"
    and "P (json_response 400 (JObj [(''error'', JStr value_required_msg)]))"
    and "\<And>h b. P (json_response 200 (JObj [(''txHash'', JStr h), (''blockNumber'', JNum (int b))]))"
    and "P (not_found rq)" and "P options_reply"
  shows "all_results P (app a rq)"
proof -
  have get: "all_results P (get_value a')" for a'
    using assms(1,2) by (auto simp: get_value_def split: sum.split)
  have fail: "all_results P (update_failed e)" for e
    using assms(3) by (simp add: update_failed_def)
  have post: "all_results P (post_value a' b)" for a' b
    using assms(3,4,5) fail
    by (auto simp: post_value_def split: sum.split option.split)
  show ?thesis
    using get post assms(6,7) by (simp add: app_def split: http_method.split)
qed

lemma app_error_bodies:
  "all_results (\<lambda>r. status r = 500 \<longrightarrow>
                  body r = PJson (JObj [(''error'', JStr read_error_msg)])
                  \<or> body r = PJson (JObj [(''error'', JStr update_error_msg)])) (app a rq)"
  by (rule all_results_app) (simp_all add: json_response_def not_found_def options_reply_def)

text \<open>
  The only writes a handler can issue are \<^verbatim>\<open>contract.set\<close> calls on the configured
  contract with the request's own \<^verbatim>\<open>value\<close>.
\<close>

lemma sets_within_app:
  "sets_within (\<lambda>b v. b = a \<and> destructure_value (req_body rq) = Inr (Some v)) (app a rq)"
  by (auto simp: app_def get_value_def post_value_def update_failed_def
      split: http_method.split sum.split option.split)

text \<open>
  C4: whatever the request, the network and the ledger, a response with status 500 carries
  only one of the two fixed messages: the exception's detail goes to the log, never to
  the client.
\<close>

theorem app_errors_generic:
  assumes "run enc fs (app a rq) l = Some (r, ls, l')" and "status r = 500"
  shows "body r = PJson (JObj [(''error'', JStr read_error_msg)])
         \<or> body r = PJson (JObj [(''error'', JStr update_error_msg)])"
proof -
  let ?P = "\<lambda>r. status r = 500 \<longrightarrow>
              body r = PJson (JObj [(''error'', JStr read_error_msg)])
              \<or> body r = PJson (JObj [(''error'', JStr update_error_msg)])"
  have "all_results ?P (app a rq)"
    by (rule app_error_bodies)
  from run_all_results [OF this assms(1)] assms(2) show ?thesis by simp
qed

theorem app_errors_generic_witness:
  "run abi_uint256 [] (app ''0x5f'' \<lparr>req_method = POST, path = ''/value'', req_body = Some (JObj [(''value'', JNull)])\<rparr>)
      \<lparr>contracts = [''0x5f'' \<mapsto> 0], height = 0, mempool = [], receipts = Map.empty, ntx = 0\<rparr>
     = Some (json_response 500 (JObj [(''error'', JStr update_error_msg)]),
             [ErrOut ''Erro ao atualizar valor:'' (InvalidArgument ''invalid BigNumberish value'')],
             \<lparr>contracts = [''0x5f'' \<mapsto> 0], height = 0, mempool = [], receipts = Map.empty, ntx = 0\<rparr>)
   \<and> body (json_response 500 (JObj [(''error'', JStr update_error_msg)]))
       = PJson (JObj [(''error'', JStr update_error_msg)])"
proof -
  have route: "value_route ''/value''" by (simp add: value_route_def lower_ascii_def)
  have r: "run abi_uint256 [] (app ''0x5f'' \<lparr>req_method = POST, path = ''/value'', req_body = Some (JObj [(''value'', JNull)])\<rparr>)
      \<lparr>contracts = [''0x5f'' \<mapsto> 0], height = 0, mempool = [], receipts = Map.empty, ntx = 0\<rparr>
     = Some (json_response 500 (JObj [(''error'', JStr update_error_msg)]),
             [ErrOut ''Erro ao atualizar valor:'' (InvalidArgument ''invalid BigNumberish value'')],
             \<lparr>contracts = [''0x5f'' \<mapsto> 0], height = 0, mempool = [], receipts = Map.empty, ntx = 0\<rparr>)"
    using route by (simp add: app_def post_value_def destructure_value_def submit_def abi_uint256_def)
  have "status (json_response 500 (JObj [(''error'', JStr update_error_msg)])) = 500"
    by (simp add: json_response_def)
  from app_errors_generic [OF r this] r show ?thesis
    by (simp add: json_response_def read_error_msg_def update_error_msg_def)
qed

text \<open>
  C13: a \<^verbatim>\<open>uint256\<close> above \<^verbatim>\<open>Number.MAX_SAFE_INTEGER\<close> (\<open>2^53 - 1\<close>) can only be
  written as a decimal string. Sent as a JSON number, the contract binding refuses it
  before any transaction: whatever the network does, \<^verbatim>\<open>POST /value\<close> answers 500 with
  the fixed message, logs the error and leaves the ledger unchanged; the decimal string of
  the same integer is a valid argument.
\<close>

theorem post_value_unsafe_number:
  assumes "9007199254740991 < n" and "n < 2 ^ 256"
  shows "(\<exists>e. run abi_uint256 fs (post_value a (Some (JObj [(''value'', JNum n)]))) l =
            Some (json_response 500 (JObj [(''error'', JStr update_error_msg)]),
                  [ErrOut ''Erro ao atualizar valor:'' e], l))
         \<and> abi_uint256 (JStr (int_to_string n)) = Some n"
  using assms
  by (cases "pop_fault fs")
     (auto simp: post_value_def destructure_value_def abi_uint256_def submit_def split: fault.split)

theorem post_value_unsafe_number_witness:
  "(\<exists>e. run abi_uint256 [] (post_value ''0x5f'' (Some (JObj [(''value'', JNum 9007199254740993)])))
          \<lparr>contracts = [''0x5f'' \<mapsto> 0], height = 0, mempool = [], receipts = Map.empty, ntx = 0\<rparr> =
        Some (json_response 500 (JObj [(''error'', JStr update_error_msg)]),
              [ErrOut ''Erro ao atualizar valor:'' e],
              \<lparr>contracts = [''0x5f'' \<mapsto> 0], height = 0, mempool = [], receipts = Map.empty, ntx = 0\<rparr>))
   \<and> abi_uint256 (JStr (int_to_string 9007199254740993)) = Some 9007199254740993"
  using post_value_unsafe_number [of 9007199254740993] by simp

text \<open>
  C6: a request causes at most one transaction. Whatever the request, the network and
  the ledger, the handler submits at most one (the \<^verbatim>\<open>catch\<close> never retries), and
  only \<^verbatim>\<open>POST /value\<close> with a present \<^verbatim>\<open>value\<close> submits one; mining while
  waiting sends nothing.
\<close>

theorem app_single_write:
  assumes "run enc fs (app a rq) l = Some (r, ls, l')"
  shows "ntx l \<le> ntx l' \<and> ntx l' \<le> Suc (ntx l)
         \<and> (ntx l' = Suc (ntx l) \<longrightarrow>
              req_method rq = POST \<and> value_route (path rq)
              \<and> (\<exists>v. destructure_value (req_body rq) = Inr (Some v)))"
proof -
  have get: "run enc fs' (get_value a) l0 = Some (r', ls', l1) \<Longrightarrow> l1 = l0" for fs' l0 r' ls' l1
    by (auto simp: run_get_value split: prod.splits fault.splits sum.splits)
  have post: "run enc fs' (post_value a b) l0 = Some (r', ls', l1) \<Longrightarrow>
      ntx l0 \<le> ntx l1 \<and> ntx l1 \<le> Suc (ntx l0)
      \<and> (ntx l1 = Suc (ntx l0) \<longrightarrow> (\<exists>v. destructure_value b = Inr (Some v)))" for fs' b l0 r' ls' l1
    by (auto simp: post_value_def submit_Inr_iff update_failed_def
        split: sum.splits option.splits prod.splits fault.splits dest!: ntx_await_receipt)
  show ?thesis
    using assms get [of fs l r ls l'] post [of fs "req_body rq" l r ls l']
    by (auto simp: app_def split: if_splits http_method.splits)
qed

theorem app_single_write_witness:
  "\<exists>r ls l'. run abi_uint256 [] (app ''0x5f'' \<lparr>req_method = POST, path = ''/value'',
                                      req_body = Some (JObj [(''value'', JNum 7)])\<rparr>)
         \<lparr>contracts = [''0x5f'' \<mapsto> 0], height = 0, mempool = [], receipts = Map.empty, ntx = 0\<rparr>
       = Some (r, ls, l') \<and> ntx l' \<le> 1"
proof -
  obtain r ls l' where run: "run abi_uint256 [] (app ''0x5f'' \<lparr>req_method = POST, path = ''/value'',
                                      req_body = Some (JObj [(''value'', JNum 7)])\<rparr>)
         \<lparr>contracts = [''0x5f'' \<mapsto> 0], height = 0, mempool = [], receipts = Map.empty, ntx = 0\<rparr>
       = Some (r, ls, l')"
    by (simp add: app_def value_route_def lower_ascii_def post_value_def destructure_value_def
        submit_def abi_uint256_def await_receipt_def mine_until.simps mine_one_def include_tx_def
        storage_set_def Let_def)
  from app_single_write [OF run] run show ?thesis by auto
qed

text \<open>
  C11: a 500 from \<^verbatim>\<open>POST /value\<close> does not mean that nothing was written. When the
  node accepts the transaction and its reply is lost, the handler answers 500, yet the
  transaction is pending and the next block stores the value.
\<close>

theorem post_value_lost_reply:
  assumes v: "lookup_last kvs ''value'' = Some v" and n: "enc v = Some n"
  shows "run enc [Lost e] (post_value a (Some (JObj kvs))) l =
           Some (json_response 500 (JObj [(''error'', JStr update_error_msg)]),
                 [ErrOut ''Erro ao atualizar valor:'' e],
                 l\<lparr>mempool := mempool l @ [\<lparr>tx_hash = tx_hash_of (ntx l), tx_to = a, tx_arg = n, tx_create = False\<rparr>],
                   ntx := Suc (ntx l)\<rparr>)"
  using v n by (simp add: post_value_def destructure_value_def submit_def Let_def)

theorem post_value_lost_reply_witness:
  "run abi_uint256 [Lost (RpcError ''timeout'')] (post_value ''0x5f'' (Some (JObj [(''value'', JNum 7)])))
      \<lparr>contracts = [''0x5f'' \<mapsto> 0], height = 0, mempool = [], receipts = Map.empty, ntx = 0\<rparr>
     = Some (json_response 500 (JObj [(''error'', JStr update_error_msg)]),
             [ErrOut ''Erro ao atualizar valor:'' (RpcError ''timeout'')],
             \<lparr>contracts = [''0x5f'' \<mapsto> 0], height = 0,
              mempool = [\<lparr>tx_hash = tx_hash_of 0, tx_to = ''0x5f'', tx_arg = 7, tx_create = False\<rparr>],
              receipts = Map.empty, ntx = 1\<rparr>)
   \<and> contracts (mine_one \<lparr>contracts = [''0x5f'' \<mapsto> 0], height = 0,
              mempool = [\<lparr>tx_hash = tx_hash_of 0, tx_to = ''0x5f'', tx_arg = 7, tx_create = False\<rparr>],
              receipts = Map.empty, ntx = 1\<rparr>) ''0x5f'' = Some 7"
  using post_value_lost_reply [of "[(''value'', JNum 7)]" "JNum 7" abi_uint256 7 "RpcError ''timeout''" "''0x5f''"
          "\<lparr>contracts = [''0x5f'' \<mapsto> 0], height = 0, mempool = [], receipts = Map.empty, ntx = 0\<rparr>"]
  by (simp add: abi_uint256_def mine_one_def include_tx_def storage_set_def)

text \<open>
  C14: the presence check is \<^verbatim>\<open>value === undefined\<close> and nothing more. A value that
  is present but that the contract binding cannot encode (\<^verbatim>\<open>null\<close>, a negative
  number, a word) reaches \<^verbatim>\<open>contract.set\<close>, whose rejection the \<^verbatim>\<open>catch\<close>
  turns into a 500; nothing is submitted.
\<close>

theorem post_value_rejected_value:
  assumes "lookup_last kvs ''value'' = Some v" and "enc v = None" and "fst (pop_fault fs) = Ok"
  shows "run enc fs (post_value a (Some (JObj kvs))) l =
           Some (json_response 500 (JObj [(''error'', JStr update_error_msg)]),
                 [ErrOut ''Erro ao atualizar valor:'' (InvalidArgument ''invalid BigNumberish value'')], l)"
  using assms by (cases fs) (auto simp: post_value_def destructure_value_def submit_def)

theorem post_value_rejected_value_witness:
  "run abi_uint256 [] (post_value ''0x5f'' (Some (JObj [(''value'', JNull)])))
      \<lparr>contracts = [''0x5f'' \<mapsto> 0], height = 0, mempool = [], receipts = Map.empty, ntx = 0\<rparr>
     = Some (json_response 500 (JObj [(''error'', JStr update_error_msg)]),
             [ErrOut ''Erro ao atualizar valor:'' (InvalidArgument ''invalid BigNumberish value'')],
             \<lparr>contracts = [''0x5f'' \<mapsto> 0], height = 0, mempool = [], receipts = Map.empty, ntx = 0\<rparr>)"
  using post_value_rejected_value [of "[(''value'', JNull)]" JNull abi_uint256 "[]" "''0x5f''"
          "\<lparr>contracts = [''0x5f'' \<mapsto> 0], height = 0, mempool = [], receipts = Map.empty, ntx = 0\<rparr>"]
  by (simp add: abi_uint256_def)

end
