(* ===== verification/Server.thy ===== *)
theory Server
  imports Gateway
begin

text \<open>
  Concurrent request handling. Node's event loop runs the handler of each request until
  its first \<^verbatim>\<open>await\<close> and resumes it when the awaited call settles; requests share
  nothing but the contract binding, hence the ledger. The server state records the ledger,
  the handler programs in flight (by request number), the requests received, the responses
  sent in order and the console. \<open>srv_step enc a\<close> is one event: a request arrives and
  its handler starts as \<open>app a rq\<close>; an in-flight handler logs, answers, or has one of
  its awaits settle (successfully, rejected by the binding, failed on the network, or
  executed with its reply lost); or the node mines a block. Which handler moves and which
  outcome an await gets are not determined, so the steps are a relation. The relation
  allows a little more interleaving than the event loop (a resumed handler's console line
  may come after another handler's step), so its safety properties hold a fortiori.
\<close>

subsection \<open>State, steps and reachable states\<close>

record server =
  chain :: ledger
  inflight :: "nat \<rightharpoonup> response prog"
  requests :: "nat \<rightharpoonup> request"
  answered :: "(nat \<times> response) list"
  console :: "logline list"
  next_id :: nat

definition init_server :: "ledger \<Rightarrow> server" where
  "init_server l =
     \<lparr>chain = l, inflight = Map.empty, requests = Map.empty, answered = [], console = [],
      next_id = 0\<rparr>"

inductive srv_step :: "(json \<Rightarrow> int option) \<Rightarrow> addr \<Rightarrow> server \<Rightarrow> server \<Rightarrow> bool"
  for enc a where
  arrive: "srv_step enc a s
     (s\<lparr>inflight := (inflight s)(next_id s \<mapsto> app a rq),
        requests := (requests s)(next_id s \<mapsto> rq), next_id := Suc (next_id s)\<rparr>)"
| log: "inflight s i = Some (Log x p) \<Longrightarrow>
     srv_step enc a s (s\<lparr>inflight := (inflight s)(i \<mapsto> p), console := console s @ [x]\<rparr>)"
| respond: "inflight s i = Some (Return r) \<Longrightarrow>
     srv_step enc a s (s\<lparr>inflight := (inflight s)(i := None), answered := answered s @ [(i, r)]\<rparr>)"
| get_reply: "inflight s i = Some (CallGet b k) \<Longrightarrow>
     srv_step enc a s (s\<lparr>inflight := (inflight s)(i \<mapsto> k (storage_get (chain s) b))\<rparr>)"
| get_fail: "inflight s i = Some (CallGet b k) \<Longrightarrow>
     srv_step enc a s (s\<lparr>inflight := (inflight s)(i \<mapsto> k (Inl e))\<rparr>)"
| set_sent: "inflight s i = Some (CallSet b v k) \<Longrightarrow> submit enc b v (chain s) = Inr (h, l') \<Longrightarrow>
     srv_step enc a s (s\<lparr>chain := l', inflight := (inflight s)(i \<mapsto> k (Inr h))\<rparr>)"
| set_rejected: "inflight s i = Some (CallSet b v k) \<Longrightarrow> submit enc b v (chain s) = Inl e \<Longrightarrow>
     srv_step enc a s (s\<lparr>inflight := (inflight s)(i \<mapsto> k (Inl e))\<rparr>)"
| set_fail: "inflight s i = Some (CallSet b v k) \<Longrightarrow>
     srv_step enc a s (s\<lparr>inflight := (inflight s)(i \<mapsto> k (Inl e))\<rparr>)"
| set_lost: "inflight s i = Some (CallSet b v k) \<Longrightarrow> submit enc b v (chain s) = Inr (h, l') \<Longrightarrow>
     srv_step enc a s (s\<lparr>chain := l', inflight := (inflight s)(i \<mapsto> k (Inl e))\<rparr>)"
| wait_done: "inflight s i = Some (CallWait h k) \<Longrightarrow> receipts (chain s) h = Some rc \<Longrightarrow>
     srv_step enc a s (s\<lparr>inflight := (inflight s)(i \<mapsto> k (Inr (Some rc)))\<rparr>)"
| wait_fail: "inflight s i = Some (CallWait h k) \<Longrightarrow>
     srv_step enc a s (s\<lparr>inflight := (inflight s)(i \<mapsto> k (Inl e))\<rparr>)"
| mine: "mempool (chain s) \<noteq> [] \<Longrightarrow> srv_step enc a s (s\<lparr>chain := mine_one (chain s)\<rparr>)"

inductive reachable :: "(json \<Rightarrow> int option) \<Rightarrow> addr \<Rightarrow> ledger \<Rightarrow> server \<Rightarrow> bool"
  for enc a l0 where
  start: "reachable enc a l0 (init_server l0)"
| step: "reachable enc a l0 s \<Longrightarrow> srv_step enc a s t \<Longrightarrow> reachable enc a l0 t"

subsection \<open>Invariants\<close>

text \<open>
  \<open>integrity_inv\<close>: every in-flight handler
  writes only its own request's value to the configured contract, every pending
  transaction to that contract carries a requested value, and the contract holds its
  initial value or a requested one.
\<close>






subsection \<open>An executable scheduler for the step relation\<close>

text \<open>
  An event names the nondeterministic choice of a step: a request arrives, handler
  \<open>i\<close> moves (its pending await settling with the given outcome), or a block is
  mined. \<open>sched_step\<close> computes the step an event selects, or \<open>None\<close> when it is
  not enabled; runs of it are executable, and it generates exactly \<open>srv_step\<close>.
\<close>

datatype outcome = Settle | Fail err | LoseReply err

datatype event = Arrive request | Resume nat outcome | Mine

fun fire :: "(json \<Rightarrow> int option) \<Rightarrow> outcome \<Rightarrow> nat \<Rightarrow> response prog \<Rightarrow> server \<Rightarrow> server option" where
  "fire enc o' i (Log x p) s = Some (s\<lparr>inflight := (inflight s)(i \<mapsto> p), console := console s @ [x]\<rparr>)"
| "fire enc o' i (Return r) s =
     Some (s\<lparr>inflight := (inflight s)(i := None), answered := answered s @ [(i, r)]\<rparr>)"
| "fire enc o' i (CallGet b k) s =
     (case o' of
        Settle \<Rightarrow> Some (s\<lparr>inflight := (inflight s)(i \<mapsto> k (storage_get (chain s) b))\<rparr>)
      | Fail e \<Rightarrow> Some (s\<lparr>inflight := (inflight s)(i \<mapsto> k (Inl e))\<rparr>)
      | LoseReply e \<Rightarrow> None)"
| "fire enc o' i (CallSet b v k) s =
     (case o' of
        Settle \<Rightarrow>
          (case submit enc b v (chain s) of
             Inl e \<Rightarrow> Some (s\<lparr>inflight := (inflight s)(i \<mapsto> k (Inl e))\<rparr>)
           | Inr (h, l') \<Rightarrow> Some (s\<lparr>chain := l', inflight := (inflight s)(i \<mapsto> k (Inr h))\<rparr>))
      | Fail e \<Rightarrow> Some (s\<lparr>inflight := (inflight s)(i \<mapsto> k (Inl e))\<rparr>)
      | LoseReply e \<Rightarrow>
          (case submit enc b v (chain s) of
             Inl _ \<Rightarrow> None
           | Inr (h, l') \<Rightarrow> Some (s\<lparr>chain := l', inflight := (inflight s)(i \<mapsto> k (Inl e))\<rparr>)))"
| "fire enc o' i (CallWait h k) s =
     (case o' of
        Settle \<Rightarrow>
          map_option (\<lambda>rc. s\<lparr>inflight := (inflight s)(i \<mapsto> k (Inr (Some rc)))\<rparr>) (receipts (chain s) h)
      | Fail e \<Rightarrow> Some (s\<lparr>inflight := (inflight s)(i \<mapsto> k (Inl e))\<rparr>)
      | LoseReply e \<Rightarrow> None)"
| "fire enc o' i p s = None"

definition sched_step :: "(json \<Rightarrow> int option) \<Rightarrow> addr \<Rightarrow> event \<Rightarrow> server \<Rightarrow> server option" where
  "sched_step enc a ev s =
     (case ev of
        Arrive rq \<Rightarrow>
          Some (s\<lparr>inflight := (inflight s)(next_id s \<mapsto> app a rq),
                  requests := (requests s)(next_id s \<mapsto> rq), next_id := Suc (next_id s)\<rparr>)
      | Resume i o' \<Rightarrow> (case inflight s i of None \<Rightarrow> None | Some p \<Rightarrow> fire enc o' i p s)
      | Mine \<Rightarrow> if mempool (chain s) = [] then None else Some (s\<lparr>chain := mine_one (chain s)\<rparr>))"

fun sched_run :: "(json \<Rightarrow> int option) \<Rightarrow> addr \<Rightarrow> event list \<Rightarrow> server \<Rightarrow> server option" where
  "sched_run enc a [] s = Some s"
| "sched_run enc a (ev # evs) s =
     (case sched_step enc a ev s of None \<Rightarrow> None | Some t \<Rightarrow> sched_run enc a evs t)"

subsection \<open>The scheduler generates exactly the steps\<close>

lemma fire_sound:
  "fire enc o' i p s = Some t \<Longrightarrow> inflight s i = Some p \<Longrightarrow> srv_step enc a s t"
  by (induction enc o' i p s rule: fire.induct)
     (auto intro: srv_step.intros split: outcome.splits sum.splits)

lemma sched_step_sound: "sched_step enc a ev s = Some t \<Longrightarrow> srv_step enc a s t"
  by (auto simp: sched_step_def intro: srv_step.intros fire_sound
      split: event.splits option.splits if_splits)

lemma sched_step_complete: "srv_step enc a s t \<Longrightarrow> \<exists>ev. sched_step enc a ev s = Some t"
proof (induction rule: srv_step.induct)
  case (arrive s rq)
  show ?case by (rule exI [of _ "Arrive rq"]) (simp add: sched_step_def)
next
  case (mine s)
  then show ?case by (intro exI [of _ Mine]) (simp add: sched_step_def)
next
  case (get_reply s i b k)
  then show ?case by (intro exI [of _ "Resume i Settle"]) (simp add: sched_step_def)
next
  case (get_fail s i b k e)
  then show ?case by (intro exI [of _ "Resume i (Fail e)"]) (simp add: sched_step_def)
next
  case (set_sent s i b v k h l')
  then show ?case by (intro exI [of _ "Resume i Settle"]) (simp add: sched_step_def)
next
  case (set_rejected s i b v k e)
  then show ?case by (intro exI [of _ "Resume i Settle"]) (simp add: sched_step_def)
next
  case (set_fail s i b v k e)
  then show ?case by (intro exI [of _ "Resume i (Fail e)"]) (simp add: sched_step_def)
next
  case (set_lost s i b v k h l' e)
  then show ?case by (intro exI [of _ "Resume i (LoseReply e)"]) (simp add: sched_step_def)
next
  case (wait_done s i h k rc)
  then show ?case by (intro exI [of _ "Resume i Settle"]) (simp add: sched_step_def)
next
  case (wait_fail s i h k e)
  then show ?case by (intro exI [of _ "Resume i (Fail e)"]) (simp add: sched_step_def)
next
  case (log s i x p)
  then show ?case by (intro exI [of _ "Resume i Settle"]) (simp add: sched_step_def)
next
  case (respond s i r)
  then show ?case by (intro exI [of _ "Resume i Settle"]) (simp add: sched_step_def)
qed

text \<open>
  The scheduler is exact: a server state has a step to another exactly when some event
  makes \<open>sched_step\<close> compute it.
\<close>

lemma sched_step_iff: "srv_step enc a s t \<longleftrightarrow> (\<exists>ev. sched_step enc a ev s = Some t)"
  using sched_step_sound sched_step_complete by blast

lemma sched_run_reachable:
  "sched_run enc a evs s = Some t \<Longrightarrow> reachable enc a l0 s \<Longrightarrow> reachable enc a l0 t"
proof (induction evs arbitrary: s)
  case Nil
  then show ?case by simp
next
  case (Cons ev evs)
  then obtain s' where s': "sched_step enc a ev s = Some s'" and rest: "sched_run enc a evs s' = Some t"
    by (auto split: option.splits)
  have "reachable enc a l0 s'"
    using Cons.prems(2) sched_step_sound [OF s'] by (rule reachable.step)
  then show ?case using Cons.IH [OF rest] by blast
qed

subsection \<open>The contract holds only values that were requested\<close>









subsection \<open>Concurrent writes race\<close>

text \<open>
  Concurrent \<^verbatim>\<open>POST /value\<close> requests race. Request 0 asks for 1 and request 1,
  arriving later, for 2; the handler of request 1 sends its transaction first, both are
  mined and both clients get 200 with their own transaction and block; the contract ends
  holding 1, the value of the request that arrived first, and the responses go out in the
  opposite order of arrival. No run of the gateway serialises writes by arrival.
\<close>

lemma concurrent_posts_race:
  "\<exists>s. reachable abi_uint256 ''0x5f''
         \<lparr>contracts = [''0x5f'' \<mapsto> 0], height = 0, mempool = [], receipts = Map.empty, ntx = 0\<rparr> s
     \<and> requests s 0 = Some \<lparr>req_method = POST, path = ''/value'', req_body = Some (JObj [(''value'', JNum 1)])\<rparr>
     \<and> requests s 1 = Some \<lparr>req_method = POST, path = ''/value'', req_body = Some (JObj [(''value'', JNum 2)])\<rparr>
     \<and> answered s =
         [(1, json_response 200 (JObj [(''txHash'', JStr (tx_hash_of 0)), (''blockNumber'', JNum 1)])),
          (0, json_response 200 (JObj [(''txHash'', JStr (tx_hash_of 1)), (''blockNumber'', JNum 2)]))]
     \<and> contracts (chain s) ''0x5f'' = Some 1"
proof -
  let ?l0 = "\<lparr>contracts = [''0x5f'' \<mapsto> 0], height = 0, mempool = [], receipts = Map.empty, ntx = 0\<rparr>
             :: ledger"
  let ?rq = "\<lambda>n::int. \<lparr>req_method = POST, path = ''/value'', req_body = Some (JObj [(''value'', JNum n)])\<rparr>"
  let ?evs = "[Arrive (?rq 1), Arrive (?rq 2), Resume 1 Settle, Resume 0 Settle, Resume 1 Settle,
               Resume 0 Settle, Mine, Mine, Resume 1 Settle, Resume 0 Settle, Resume 1 Settle,
               Resume 0 Settle, Resume 1 Settle, Resume 0 Settle]"
  let ?P = "\<lambda>s. requests s 0 = Some (?rq 1) \<and> requests s 1 = Some (?rq 2)
     \<and> answered s =
         [(1, json_response 200 (JObj [(''txHash'', JStr (tx_hash_of 0)), (''blockNumber'', JNum 1)])),
          (0, json_response 200 (JObj [(''txHash'', JStr (tx_hash_of 1)), (''blockNumber'', JNum 2)]))]
     \<and> contracts (chain s) ''0x5f'' = Some 1"
  have "\<exists>s. sched_run abi_uint256 ''0x5f'' ?evs (init_server ?l0) = Some s \<and> ?P s"
    by (simp add: sched_step_def init_server_def app_def value_route_def lower_ascii_def
        post_value_def destructure_value_def submit_def abi_uint256_def mine_one_def include_tx_def
        storage_set_def Let_def)
  then obtain s where run: "sched_run abi_uint256 ''0x5f'' ?evs (init_server ?l0) = Some s" and P: "?P s"
    by blast
  have "reachable abi_uint256 ''0x5f'' ?l0 s"
    using sched_run_reachable [OF run reachable.start] .
  with P show ?thesis by blast
qed

subsection \<open>Concurrent reads report only values that were written\<close>








end
