(* ===== verification/Register.thy ===== *)
theory Register
  imports Server
begin

text \<open>
  What the gateway promises, as the specification states it (sections 3, 4.1 and 6 of
  \<^verbatim>\<open>spec.md\<close>): the contract is a single integer register, read by
  \<^verbatim>\<open>GET /value\<close> and replaced by \<^verbatim>\<open>POST /value\<close>, with the answers of the
  interface table, to which Express adds the router's reply to \<^verbatim>\<open>OPTIONS\<close>
  (the allowed methods, an answer the specification does not list). \<open>spec_api\<close> is
  that contract as a function from the register and a
  request to the client-visible answer and the new register; \<open>answer_of\<close> reads a
  response of the model the way a client does (status, and for a read the decoded
  integer). The refinement lemmas show that the handlers of theory \<open>Gateway\<close>, run one
  after another on a node with nothing pending and no network faults, implement it
  exactly.
\<close>

subsection \<open>The abstract service\<close>

datatype answer = AValue int | ATx | AAllow | ABadRequest | AServerError | ANotFound

definition answer_of :: "response \<Rightarrow> answer" where
  "answer_of r =
     (if status r = 200 then
        (case body r of
           PJson (JObj [(k, JStr s)]) \<Rightarrow>
             (if k = ''value'' then (case parse_int s of Some n \<Rightarrow> AValue n | None \<Rightarrow> ATx)
              else ATx)
         | PText _ \<Rightarrow> AAllow
         | _ \<Rightarrow> ATx)
      else if status r = 400 then ABadRequest
      else if status r = 404 then ANotFound
      else AServerError)"

definition spec_api ::
  "(json \<Rightarrow> int option) \<Rightarrow> request \<Rightarrow> int option \<Rightarrow> answer \<times> int option" where
  "spec_api enc rq v =
     (if \<not> value_route (path rq) then (ANotFound, v)
      else case req_method rq of
        POST \<Rightarrow>
          (case destructure_value (req_body rq) of
             Inl _ \<Rightarrow> (AServerError, v)
           | Inr None \<Rightarrow> (ABadRequest, v)
           | Inr (Some j) \<Rightarrow>
               (case enc j of
                  None \<Rightarrow> (AServerError, v)
                | Some n \<Rightarrow> (ATx, map_option (\<lambda>_. n) v)))
      | Other m \<Rightarrow> (if m = ''OPTIONS'' then AAllow else ANotFound, v)
      | _ \<Rightarrow> (case v of None \<Rightarrow> (AServerError, v) | Some n \<Rightarrow> (AValue n, v)))"

text \<open>Requests served one after another, each handler run to its answer.\<close>

fun serve :: "(json \<Rightarrow> int option) \<Rightarrow> addr \<Rightarrow> request list \<Rightarrow> ledger
                \<Rightarrow> (response list \<times> ledger) option" where
  "serve enc a [] l = Some ([], l)"
| "serve enc a (rq # rqs) l =
     (case run enc [] (app a rq) l of
        None \<Rightarrow> None
      | Some (r, _, l') \<Rightarrow> map_option (\<lambda>(rs, l''). (r # rs, l'')) (serve enc a rqs l'))"

fun spec_serve :: "(json \<Rightarrow> int option) \<Rightarrow> request list \<Rightarrow> int option \<Rightarrow> answer list \<times> int option" where
  "spec_serve enc [] v = ([], v)"
| "spec_serve enc (rq # rqs) v =
     (case spec_api enc rq v of (x, v') \<Rightarrow> (case spec_serve enc rqs v' of (xs, v'') \<Rightarrow> (x # xs, v'')))"

text \<open>
  The response types of the interface table (section 6 of the specification): a read
  answers \<^verbatim>\<open>{"value": "<integer-as-string>"}\<close>, a write
  \<^verbatim>\<open>{"txHash": "...", "blockNumber": <int>}\<close>, an error \<^verbatim>\<open>{"error": "..."}\<close>
  with status 400 or 500, and an unknown route Express's 404 page.
\<close>

definition api_shape :: "response \<Rightarrow> bool" where
  "api_shape r =
     (case body r of
        PJson (JObj [(k, JStr s)]) \<Rightarrow>
          (status r = 200 \<and> k = ''value'' \<and> parse_int s \<noteq> None)
          \<or> ((status r = 400 \<or> status r = 500) \<and> k = ''error'')
      | PJson (JObj [(k1, JStr h), (k2, JNum b)]) \<Rightarrow>
          status r = 200 \<and> k1 = ''txHash'' \<and> k2 = ''blockNumber'' \<and> 0 \<le> b
      | PText _ \<Rightarrow> status r = 404
      | _ \<Rightarrow> False)"

subsection \<open>One request on a quiescent node\<close>

lemma run_post_quiescent:
  assumes wf: "ledger_wf l" and mp: "mempool l = []"
    and d: "destructure_value b = Inr (Some j)" and n: "enc j = Some n"
  shows "run enc [] (post_value a b) l =
           Some (json_response 200 (JObj [(''txHash'', JStr (tx_hash_of (ntx l))),
                   (''blockNumber'', JNum (int (Suc (height l))))]),
                 [Out [JStr ''Tx enviada:'', JStr (tx_hash_of (ntx l))],
                  Out [JStr ''Tx confirmada em bloco:'', JNum (int (Suc (height l)))]],
                 (include_tx \<lparr>tx_hash = tx_hash_of (ntx l), tx_to = a, tx_arg = n, tx_create = False\<rparr>
                   (l\<lparr>ntx := Suc (ntx l)\<rparr>))\<lparr>mempool := []\<rparr>)
         \<and> ledger_wf ((include_tx \<lparr>tx_hash = tx_hash_of (ntx l), tx_to = a, tx_arg = n, tx_create = False\<rparr>
                   (l\<lparr>ntx := Suc (ntx l)\<rparr>))\<lparr>mempool := []\<rparr>)"
proof -
  let ?t = "\<lparr>tx_hash = tx_hash_of (ntx l), tx_to = a, tx_arg = n, tx_create = False\<rparr>"
  let ?l1 = "l\<lparr>mempool := mempool l @ [?t], ntx := Suc (ntx l)\<rparr>"
  let ?l2 = "(include_tx ?t (l\<lparr>ntx := Suc (ntx l)\<rparr>))\<lparr>mempool := []\<rparr>"
  have sub: "submit enc a j l = Inr (tx_hash_of (ntx l), ?l1)"
    using n by (simp add: submit_Inr_iff)
  have aw: "await_receipt (tx_hash_of (ntx l)) ?l1 =
              Some (\<lparr>rc_hash = tx_hash_of (ntx l), rc_block = Suc (height l)\<rparr>, ?l2)"
    using await_enqueued [OF wf, of ?t] mp by simp
  have "ledger_wf ?l2"
    using ledger_wf_await_receipt [OF ledger_wf_submit [OF wf sub] aw] .
  moreover have "run enc [] (post_value a b) l =
           Some (json_response 200 (JObj [(''txHash'', JStr (tx_hash_of (ntx l))),
                   (''blockNumber'', JNum (int (Suc (height l))))]),
                 [Out [JStr ''Tx enviada:'', JStr (tx_hash_of (ntx l))],
                  Out [JStr ''Tx confirmada em bloco:'', JNum (int (Suc (height l)))]], ?l2)"
    using d sub aw by (simp add: post_value_def)
  ultimately show ?thesis by blast
qed

lemma answer_of_value [simp]:
  "answer_of (json_response 200 (JObj [(''value'', JStr (int_to_string v))])) = AValue v"
  by (simp add: answer_of_def json_response_def)

lemma answer_of_tx [simp]:
  "answer_of (json_response 200 (JObj [(''txHash'', JStr h), (''blockNumber'', JNum b)])) = ATx"
  by (simp add: answer_of_def json_response_def)

lemma answer_of_errors [simp]:
  "answer_of (json_response 500 j) = AServerError"
  "answer_of (json_response 400 j) = ABadRequest"
  "answer_of (not_found rq) = ANotFound"
  "answer_of options_reply = AAllow"
  by (simp_all add: answer_of_def json_response_def not_found_def options_reply_def)

lemma app_refines_step:
  assumes wf: "ledger_wf l" and mp: "mempool l = []"
  shows "\<exists>r ls l'. run enc [] (app a rq) l = Some (r, ls, l')
           \<and> (answer_of r, contracts l' a) = spec_api enc rq (contracts l a)
           \<and> ledger_wf l' \<and> mempool l' = []"
proof (cases "value_route (path rq)")
  case False
  then show ?thesis using wf mp by (simp add: app_def spec_api_def)
next
  case route: True
  show ?thesis
  proof (cases "req_method rq")
    case GET
    then show ?thesis using route wf mp
      by (simp add: app_def spec_api_def run_get_value storage_get_def split: option.split)
  next
    case HEAD
    then show ?thesis using route wf mp
      by (simp add: app_def spec_api_def run_get_value storage_get_def split: option.split)
  next
    case (Other m)
    then show ?thesis using route wf mp by (simp add: app_def spec_api_def split: if_split)
  next
    case POST
    show ?thesis
    proof (cases "destructure_value (req_body rq)")
      case (Inl e)
      then show ?thesis using route POST wf mp by (simp add: app_def spec_api_def post_value_def)
    next
      case (Inr ov)
      show ?thesis
      proof (cases ov)
        case None
        then show ?thesis using route POST Inr wf mp
          by (simp add: app_def spec_api_def post_value_def)
      next
        case (Some j)
        show ?thesis
        proof (cases "enc j")
          case None
          then have "submit enc a j l = Inl (InvalidArgument ''invalid BigNumberish value'')"
            by (simp add: submit_def)
          then show ?thesis using route POST Inr Some None wf mp
            by (simp add: app_def spec_api_def post_value_def)
        next
          case (Some n)
          have d: "destructure_value (req_body rq) = Inr (Some j)" using Inr \<open>ov = Some j\<close> by simp
          let ?t = "\<lparr>tx_hash = tx_hash_of (ntx l), tx_to = a, tx_arg = n, tx_create = False\<rparr>"
          let ?l2 = "(include_tx ?t (l\<lparr>ntx := Suc (ntx l)\<rparr>))\<lparr>mempool := []\<rparr>"
          have app: "app a rq = post_value a (req_body rq)" using route POST by (simp add: app_def)
          have c: "contracts ?l2 a = map_option (\<lambda>_. n) (contracts l a)"
            by (cases "contracts l a") (simp_all add: include_tx_def storage_set_def domIff)
          have sp: "spec_api enc rq (contracts l a) = (ATx, map_option (\<lambda>_. n) (contracts l a))"
            using route POST d Some by (simp add: spec_api_def)
          show ?thesis
            using run_post_quiescent [where enc = enc and a = a and l = l and b = "req_body rq",
                                      OF wf mp d Some] app c sp
            by simp
        qed
      qed
    qed
  qed
qed

subsection \<open>Sequential refinement\<close>

text \<open>
  C19: served one after another on a well-formed node with nothing pending and no
  network faults, the gateway implements the specification's register: every request is
  answered, and the answers as a client reads them and the value stored at the
  configured address are those of \<open>spec_serve\<close>, request by request.
\<close>

theorem serve_refines_spec:
  assumes "ledger_wf l" and "mempool l = []"
  shows "\<exists>rs l'. serve enc a rqs l = Some (rs, l')
           \<and> (map answer_of rs, contracts l' a) = spec_serve enc rqs (contracts l a)"
  using assms
proof (induction rqs arbitrary: l)
  case Nil
  then show ?case by simp
next
  case (Cons rq rqs)
  obtain r ls l' where run: "run enc [] (app a rq) l = Some (r, ls, l')"
    and sp: "(answer_of r, contracts l' a) = spec_api enc rq (contracts l a)"
    and wf: "ledger_wf l'" and mp: "mempool l' = []"
    using app_refines_step [OF Cons.prems] by blast
  obtain rs l'' where rest: "serve enc a rqs l' = Some (rs, l'')"
    and sp': "(map answer_of rs, contracts l'' a) = spec_serve enc rqs (contracts l' a)"
    using Cons.IH [OF wf mp] by blast
  show ?case
    using run rest by (simp add: sp [symmetric] sp' [symmetric])
qed

theorem serve_refines_spec_witness:
  "\<exists>rs l'. serve abi_uint256 ''0x5f''
              [\<lparr>req_method = POST, path = ''/value'', req_body = Some (JObj [(''value'', JStr ''7'')])\<rparr>,
               \<lparr>req_method = GET, path = ''/Value/'', req_body = None\<rparr>,
               \<lparr>req_method = POST, path = ''/value'', req_body = Some (JObj [])\<rparr>,
               \<lparr>req_method = Other ''OPTIONS'', path = ''/value'', req_body = None\<rparr>]
              \<lparr>contracts = [''0x5f'' \<mapsto> 0], height = 0, mempool = [], receipts = Map.empty, ntx = 0\<rparr>
            = Some (rs, l')
         \<and> map answer_of rs = [ATx, AValue 7, ABadRequest, AAllow] \<and> contracts l' ''0x5f'' = Some 7"
proof -
  let ?rqs = "[\<lparr>req_method = POST, path = ''/value'', req_body = Some (JObj [(''value'', JStr ''7'')])\<rparr>,
               \<lparr>req_method = GET, path = ''/Value/'', req_body = None\<rparr>,
               \<lparr>req_method = POST, path = ''/value'', req_body = Some (JObj [])\<rparr>,
               \<lparr>req_method = Other ''OPTIONS'', path = ''/value'', req_body = None\<rparr>]"
  let ?l0 = "\<lparr>contracts = [''0x5f'' \<mapsto> 0], height = 0, mempool = [], receipts = Map.empty, ntx = 0\<rparr>
             :: ledger"
  have wf: "ledger_wf ?l0" by (simp add: ledger_wf_def)
  have "parse_int ''7'' = Some 7" by code_simp
  moreover have "char_of (118::nat) = CHR ''v''" by code_simp
  ultimately have sp: "spec_serve abi_uint256 ?rqs (Some 0) = ([ATx, AValue 7, ABadRequest, AAllow], Some 7)"
    by (simp add: spec_api_def value_route_def lower_ascii_def destructure_value_def abi_uint256_def)
  from serve_refines_spec [OF wf, of abi_uint256 "''0x5f''" ?rqs] sp show ?thesis by simp
qed

subsection \<open>Response types\<close>

text \<open>
  Every result of a route handler has a type of the interface table, or is the router's
  \<^verbatim>\<open>OPTIONS\<close> reply.
\<close>

lemma app_api_shape: "all_results (\<lambda>r. api_shape r \<or> r = options_reply) (app a rq)"
  by (rule all_results_app) (simp_all add: api_shape_def json_response_def not_found_def)

end
