(* ===== verification/Http.thy ===== *)
theory Http
  imports Register
begin

text \<open>
  The HTTP front of the gateway, index.js lines 6--7: \<^verbatim>\<open>const app = express()\<close> and
  \<^verbatim>\<open>app.use(express.json())\<close>. The JSON body parser runs on every request before
  routing. A request whose content type is not JSON, or that has no body, passes with
  \<^verbatim>\<open>req.body\<close> undefined; an empty JSON body becomes \<^verbatim>\<open>{}\<close>; a body over the
  100 kB limit is refused with 413; in strict mode (the default) a body whose first
  non-blank character is neither \<^verbatim>\<open>{\<close> nor \<^verbatim>\<open>[\<close>, or that \<^verbatim>\<open>JSON.parse\<close>
  rejects, is refused with 400. A refusal goes to Express's final handler, which answers
  the error status with an HTML page. \<^verbatim>\<open>JSON.parse\<close> and the page are parameters
  (\<open>json_parse\<close>, \<open>page\<close>) since they belong to the runtime, not to the repository.
  \<open>http_exchange\<close> is the whole exchange as the client sees it (status, and the body
  unless the request is \<^verbatim>\<open>HEAD\<close>); the last theorems compose it with the handlers
  end to end.
\<close>

record raw_request =
  raw_method :: http_method
  raw_path :: string
  json_type :: bool
  raw_body :: "string option"

definition body_limit :: nat where
  "body_limit = 102400"

definition is_blank :: "char \<Rightarrow> bool" where
  "is_blank c \<longleftrightarrow> c \<in> {CHR '' '', CHR 0x09, CHR 0x0A, CHR 0x0D}"

text \<open>The strict-mode test: the first non-blank character opens an object or an array.\<close>

definition strict_ok :: "string \<Rightarrow> bool" where
  "strict_ok s =
     (case dropWhile is_blank s of
        [] \<Rightarrow> False
      | c # _ \<Rightarrow> c = CHR ''{'' \<or> c = CHR ''['')"

definition body_parser ::
  "(string \<Rightarrow> json option) \<Rightarrow> raw_request \<Rightarrow> nat + json option" where
  "body_parser json_parse rr =
     (case raw_body rr of
        None \<Rightarrow> Inr None
      | Some s \<Rightarrow>
          if \<not> json_type rr then Inr None
          else if body_limit < length s then Inl 413
          else if s = [] then Inr (Some (JObj []))
          else if \<not> strict_ok s then Inl 400
          else (case json_parse s of None \<Rightarrow> Inl 400 | Some j \<Rightarrow> Inr (Some j)))"

definition error_page :: "(nat \<Rightarrow> string) \<Rightarrow> nat \<Rightarrow> response" where
  "error_page page st = \<lparr>status = st, body = PText (page st)\<rparr>"

definition handle ::
  "(string \<Rightarrow> json option) \<Rightarrow> (nat \<Rightarrow> string) \<Rightarrow> addr \<Rightarrow> raw_request \<Rightarrow> response prog" where
  "handle json_parse page a rr =
     (case body_parser json_parse rr of
        Inl st \<Rightarrow> Return (error_page page st)
      | Inr b \<Rightarrow> app a \<lparr>req_method = raw_method rr, path = raw_path rr, req_body = b\<rparr>)"

text \<open>
  What goes on the wire. Express routes \<^verbatim>\<open>HEAD\<close> through the \<^verbatim>\<open>app.get\<close>
  handlers (line 38), and for a \<^verbatim>\<open>HEAD\<close> request \<^verbatim>\<open>res.send\<close> (behind
  \<^verbatim>\<open>res.json\<close>) and the final handler's error page end the response without its body:
  the status and headers go out, the payload does not.
\<close>

record wire =
  wire_status :: nat
  wire_body :: "payload option"

definition send_wire :: "http_method \<Rightarrow> response \<Rightarrow> wire" where
  "send_wire m r = \<lparr>wire_status = status r, wire_body = (if m = HEAD then None else Some (body r))\<rparr>"

definition http_exchange ::
  "(string \<Rightarrow> json option) \<Rightarrow> (nat \<Rightarrow> string) \<Rightarrow> addr \<Rightarrow> raw_request \<Rightarrow> wire prog" where
  "http_exchange json_parse page a rr = map_prog (send_wire (raw_method rr)) (handle json_parse page a rr)"

subsection \<open>Requests the body parser refuses\<close>

lemma run_handle_refused:
  "body_parser json_parse rr = Inl st \<Longrightarrow>
   run enc fs (handle json_parse page a rr) l = Some (error_page page st, [], l)"
  by (simp add: handle_def)

text \<open>
  C21: a JSON request whose body is not an object or array in strict mode (a bare
  number, string or \<^verbatim>\<open>null\<close>, or text \<^verbatim>\<open>JSON.parse\<close> rejects) never reaches a
  route: on any path, whatever the network, it is answered 400 by Express's error page,
  with no log line and no ledger change, and that answer is not the
  \<^verbatim>\<open>{"error": ...}\<close> object of the interface table.
\<close>

theorem handle_rejects_body:
  assumes "json_type rr" and "raw_body rr = Some s" and "s \<noteq> []" and "length s \<le> body_limit"
    and "\<not> strict_ok s \<or> json_parse s = None"
  shows "run enc fs (handle json_parse page a rr) l = Some (error_page page 400, [], l)
         \<and> \<not> api_shape (error_page page 400)"
proof -
  have "body_parser json_parse rr = Inl 400"
    using assms by (auto simp: body_parser_def split: option.split)
  then show ?thesis
    by (simp add: run_handle_refused api_shape_def error_page_def)
qed

theorem handle_rejects_body_witness:
  "run abi_uint256 [] (handle (\<lambda>_. Some (JNum 7)) (\<lambda>_. ''Bad Request'') ''0x5f''
        \<lparr>raw_method = POST, raw_path = ''/value'', json_type = True, raw_body = Some ''7''\<rparr>)
      \<lparr>contracts = [''0x5f'' \<mapsto> 0], height = 0, mempool = [], receipts = Map.empty, ntx = 0\<rparr>
     = Some (error_page (\<lambda>_. ''Bad Request'') 400, [],
             \<lparr>contracts = [''0x5f'' \<mapsto> 0], height = 0, mempool = [], receipts = Map.empty, ntx = 0\<rparr>)
   \<and> \<not> api_shape (error_page (\<lambda>_. ''Bad Request'') 400)"
proof -
  have "\<not> strict_ok ''7''" by (simp add: strict_ok_def is_blank_def)
  then show ?thesis
    using handle_rejects_body [of "\<lparr>raw_method = POST, raw_path = ''/value'', json_type = True,
                                     raw_body = Some ''7''\<rparr>" "''7''" "\<lambda>_. Some (JNum 7)"]
    by (simp add: body_limit_def)
qed

subsection \<open>Bodies the parser passes on\<close>

text \<open>
  C22: what \<^verbatim>\<open>POST /value\<close> answers for the bodies the parser lets through without
  a value: an empty JSON body becomes \<^verbatim>\<open>{}\<close> and is answered 400 with the fixed
  message before any call, while a body that is not JSON (no JSON content type, or no
  body) leaves \<^verbatim>\<open>req.body\<close> undefined and is answered 500 by the \<^verbatim>\<open>catch\<close>.
\<close>

theorem handle_post_without_value:
  assumes "raw_method rr = POST" and "value_route (raw_path rr)"
  shows "(json_type rr \<and> raw_body rr = Some [] \<longrightarrow>
            run enc fs (handle json_parse page a rr) l =
              Some (json_response 400 (JObj [(''error'', JStr value_required_msg)]), [], l))
       \<and> ((\<not> json_type rr \<or> raw_body rr = None) \<longrightarrow>
            run enc fs (handle json_parse page a rr) l =
              Some (json_response 500 (JObj [(''error'', JStr update_error_msg)]),
                    [ErrOut ''Erro ao atualizar valor:''
                       (TypeError ''Cannot destructure property 'value' of 'req.body' as it is undefined.'')], l))"
  using assms
  by (auto simp: handle_def body_parser_def app_def post_value_def destructure_value_def
      split: option.split)

theorem handle_post_without_value_witness:
  "run abi_uint256 [] (handle (\<lambda>_. None) (\<lambda>_. ''Bad Request'') ''0x5f''
        \<lparr>raw_method = POST, raw_path = ''/value'', json_type = True, raw_body = Some []\<rparr>)
      \<lparr>contracts = [''0x5f'' \<mapsto> 0], height = 0, mempool = [], receipts = Map.empty, ntx = 0\<rparr>
     = Some (json_response 400 (JObj [(''error'', JStr value_required_msg)]), [],
             \<lparr>contracts = [''0x5f'' \<mapsto> 0], height = 0, mempool = [], receipts = Map.empty, ntx = 0\<rparr>)"
proof -
  have "value_route ''/value''" by (simp add: value_route_def lower_ascii_def)
  then show ?thesis
    using handle_post_without_value [of "\<lparr>raw_method = POST, raw_path = ''/value'', json_type = True,
                                           raw_body = Some []\<rparr>" abi_uint256 "[]" "\<lambda>_. None"
                                       "\<lambda>_. ''Bad Request''" "''0x5f''"]
    by simp
qed

subsection \<open>Response types of the whole gateway\<close>

lemma body_parser_refusals: "body_parser json_parse rr = Inl st \<Longrightarrow> st = 400 \<or> st = 413"
  by (auto simp: body_parser_def split: option.splits if_splits)

text \<open>
  C20: whatever the request, its body and the network, every response the gateway sends
  is of a type of the interface table (\<^verbatim>\<open>{"value": <integer string>}\<close> or
  \<^verbatim>\<open>{txHash, blockNumber}\<close> with 200, \<^verbatim>\<open>{"error": ...}\<close> with 400 or 500, the
  404 page), the router's \<^verbatim>\<open>OPTIONS\<close> reply, or Express's error page for a body the
  parser refuses (400, or 413 above the size limit).
\<close>

theorem handle_response_shape:
  assumes "run enc fs (handle json_parse page a rr) l = Some (r, ls, l')"
  shows "api_shape r \<or> r = options_reply \<or> r = error_page page 400 \<or> r = error_page page 413"
proof (cases "body_parser json_parse rr")
  case (Inl st)
  then show ?thesis
    using assms body_parser_refusals [OF Inl] by (auto simp: handle_def)
next
  case (Inr b)
  then have "run enc fs (app a \<lparr>req_method = raw_method rr, path = raw_path rr, req_body = b\<rparr>) l
               = Some (r, ls, l')"
    using assms by (simp add: handle_def)
  then show ?thesis using run_all_results [OF app_api_shape] by blast
qed

theorem handle_response_shape_witness:
  "run abi_uint256 [] (handle (\<lambda>_. None) (\<lambda>_. ''Bad Request'') ''0x5f''
        \<lparr>raw_method = Other ''OPTIONS'', raw_path = ''/value'', json_type = False, raw_body = None\<rparr>)
      \<lparr>contracts = [''0x5f'' \<mapsto> 0], height = 0, mempool = [], receipts = Map.empty, ntx = 0\<rparr>
     = Some (options_reply, [],
             \<lparr>contracts = [''0x5f'' \<mapsto> 0], height = 0, mempool = [], receipts = Map.empty, ntx = 0\<rparr>)
   \<and> (api_shape options_reply \<or> options_reply = options_reply
      \<or> options_reply = error_page (\<lambda>_. ''Bad Request'') 400
      \<or> options_reply = error_page (\<lambda>_. ''Bad Request'') 413)"
proof -
  have r: "run abi_uint256 [] (handle (\<lambda>_. None) (\<lambda>_. ''Bad Request'') ''0x5f''
        \<lparr>raw_method = Other ''OPTIONS'', raw_path = ''/value'', json_type = False, raw_body = None\<rparr>)
      \<lparr>contracts = [''0x5f'' \<mapsto> 0], height = 0, mempool = [], receipts = Map.empty, ntx = 0\<rparr>
     = Some (options_reply, [],
             \<lparr>contracts = [''0x5f'' \<mapsto> 0], height = 0, mempool = [], receipts = Map.empty, ntx = 0\<rparr>)"
    by (simp add: handle_def body_parser_def app_def value_route_def lower_ascii_def)
  from handle_response_shape [OF r] r show ?thesis by simp
qed

subsection \<open>HEAD requests\<close>

text \<open>
  Every \<^verbatim>\<open>HEAD\<close> request, on any path and with any body, is handled exactly as
  the same request with \<^verbatim>\<open>GET\<close>: the same contract call (for \<^verbatim>\<open>/value\<close>, a
  \<^verbatim>\<open>contract.get()\<close> on the node), the same log lines, the same ledger and the same
  status, under every network behaviour; only the body is not sent.
\<close>

lemma head_as_get_without_body:
  assumes "raw_method rr = HEAD"
  shows "run enc fs (http_exchange json_parse page a rr) l =
         map_option (\<lambda>(w, ls, l'). (w\<lparr>wire_body := None\<rparr>, ls, l'))
           (run enc fs (http_exchange json_parse page a (rr\<lparr>raw_method := GET\<rparr>)) l)"
  using assms
  by (simp add: http_exchange_def run_map_prog handle_def body_parser_def app_def send_wire_def
      not_found_def option.map_comp comp_def split_def
      split: sum.split option.split http_method.split)

subsection \<open>Writing and reading back over HTTP\<close>

text \<open>
  C24: end to end over HTTP, on a node with nothing pending and no network faults: a
  \<^verbatim>\<open>POST /value\<close> whose JSON body carries any \<^verbatim>\<open>uint256\<close> as a decimal string is
  answered 200 with the hash and block of its transaction, and a \<^verbatim>\<open>GET /value\<close>
  that follows reads back exactly that decimal string, logging nothing and changing
  nothing.
\<close>

theorem http_write_read_roundtrip:
  assumes wf: "ledger_wf l" and mp: "mempool l = []" and c: "contracts l a \<noteq> None"
    and js: "json_parse s = Some (JObj [(''value'', JStr (int_to_string n))])"
    and st: "strict_ok s" and len: "length s \<le> body_limit"
    and rng: "0 \<le> n" "n < 2 ^ 256"
  shows "\<exists>ls l'.
     run abi_uint256 [] (http_exchange json_parse page a
         \<lparr>raw_method = POST, raw_path = ''/value'', json_type = True, raw_body = Some s\<rparr>) l
       = Some (\<lparr>wire_status = 200, wire_body = Some (PJson (JObj [(''txHash'', JStr (tx_hash_of (ntx l))),
                                                   (''blockNumber'', JNum (int (Suc (height l))))]))\<rparr>,
               ls, l')
   \<and> run abi_uint256 [] (http_exchange json_parse page a
         \<lparr>raw_method = GET, raw_path = ''/value'', json_type = False, raw_body = None\<rparr>) l'
       = Some (\<lparr>wire_status = 200, wire_body = Some (PJson (JObj [(''value'', JStr (int_to_string n))]))\<rparr>,
               [], l')"
proof -
  have route: "value_route ''/value''" by (simp add: value_route_def lower_ascii_def)
  have ne: "s \<noteq> []" using st by (auto simp: strict_ok_def)
  have enc: "abi_uint256 (JStr (int_to_string n)) = Some n"
    using rng by (simp add: abi_uint256_def)
  have d: "destructure_value (Some (JObj [(''value'', JStr (int_to_string n))]))
             = Inr (Some (JStr (int_to_string n)))"
    by (simp add: destructure_value_def)
  let ?t = "\<lparr>tx_hash = tx_hash_of (ntx l), tx_to = a, tx_arg = n, tx_create = False\<rparr>"
  let ?l' = "(include_tx ?t (l\<lparr>ntx := Suc (ntx l)\<rparr>))\<lparr>mempool := []\<rparr>"
  have post: "run abi_uint256 [] (post_value a (Some (JObj [(''value'', JStr (int_to_string n))]))) l =
      Some (json_response 200 (JObj [(''txHash'', JStr (tx_hash_of (ntx l))),
                                     (''blockNumber'', JNum (int (Suc (height l))))]),
            [Out [JStr ''Tx enviada:'', JStr (tx_hash_of (ntx l))],
             Out [JStr ''Tx confirmada em bloco:'', JNum (int (Suc (height l)))]], ?l')"
    using run_post_quiescent [where enc = abi_uint256 and a = a, OF wf mp d enc] by blast
  have stored: "contracts ?l' a = Some n"
    using contracts_include_tx_to [of ?t "l\<lparr>ntx := Suc (ntx l)\<rparr>"] c by auto
  show ?thesis
    using post stored route ne js st len
    by (simp add: http_exchange_def run_map_prog handle_def body_parser_def app_def send_wire_def
        json_response_def run_get_value storage_get_def)
qed

theorem http_write_read_roundtrip_witness:
  "\<exists>ls l'.
     run abi_uint256 [] (http_exchange (\<lambda>_. Some (JObj [(''value'', JStr (int_to_string 42))]))
         (\<lambda>_. ''Bad Request'') ''0x5f''
         \<lparr>raw_method = POST, raw_path = ''/value'', json_type = True, raw_body = Some ''{\"value\": \"42\"}''\<rparr>)
         \<lparr>contracts = [''0x5f'' \<mapsto> 0], height = 0, mempool = [], receipts = Map.empty, ntx = 0\<rparr>
       = Some (\<lparr>wire_status = 200, wire_body = Some (PJson (JObj [(''txHash'', JStr (tx_hash_of 0)),
                                                   (''blockNumber'', JNum 1)]))\<rparr>, ls, l')
   \<and> run abi_uint256 [] (http_exchange (\<lambda>_. Some (JObj [(''value'', JStr (int_to_string 42))]))
         (\<lambda>_. ''Bad Request'') ''0x5f''
         \<lparr>raw_method = GET, raw_path = ''/value'', json_type = False, raw_body = None\<rparr>) l'
       = Some (\<lparr>wire_status = 200, wire_body = Some (PJson (JObj [(''value'', JStr (int_to_string 42))]))\<rparr>,
               [], l')"
proof -
  have "strict_ok ''{\"value\": \"42\"}''" by (simp add: strict_ok_def is_blank_def)
  moreover have "ledger_wf \<lparr>contracts = [''0x5f'' \<mapsto> 0], height = 0, mempool = [], receipts = Map.empty, ntx = 0\<rparr>"
    by (simp add: ledger_wf_def)
  ultimately show ?thesis
    using http_write_read_roundtrip [of "\<lparr>contracts = [''0x5f'' \<mapsto> 0], height = 0, mempool = [],
                                           receipts = Map.empty, ntx = 0\<rparr>" "''0x5f''"
            "\<lambda>_. Some (JObj [(''value'', JStr (int_to_string 42))])" "''{\"value\": \"42\"}''" 42]
    by (simp add: body_limit_def)
qed

end
