(* ===== verification/Deploy.thy ===== *)
theory Deploy
  imports Program
begin

text \<open>
  The deployment script \<^verbatim>\<open>src/contracts/scripts/deploy-simple-storage.js\<close>.
  \<^verbatim>\<open>main()\<close> awaits \<^verbatim>\<open>getContractFactory("SimpleStorage")\<close>, \<^verbatim>\<open>deploy()\<close> and
  \<^verbatim>\<open>waitForDeployment()\<close>, reads the address and prints it; the \<^verbatim>\<open>.catch\<close> of
  line 13 prints the error and sets \<^verbatim>\<open>process.exitCode = 1\<close>. It is the program
  \<open>deploy_main\<close> of theory \<open>Program\<close>, whose result is the process's exit code
  (0 when \<^verbatim>\<open>main()\<close> resolves, 1 after the \<^verbatim>\<open>catch\<close>). \<^verbatim>\<open>getAddress()\<close>
  answers the target address fixed when the deployment was sent, without a network round
  trip, so it is not a separate call. The lemmas show that a run without faults creates a
  contract storing 0 at the printed address, that the exit code and the output agree in
  every run, and that the script always ends.
\<close>

definition deploy_failed :: "err \<Rightarrow> nat prog" where
  "deploy_failed e = Log (ErrVal e) (Return 1)"

definition deploy_main :: "nat prog" where
  "deploy_main =
     CallFactory ''SimpleStorage'' (\<lambda>r. case r of
       Inl e \<Rightarrow> deploy_failed e
     | Inr _ \<Rightarrow>
         CallDeploy (\<lambda>d. case d of
           Inl e \<Rightarrow> deploy_failed e
         | Inr (h, a) \<Rightarrow>
             CallWaitDeploy h (\<lambda>w. case w of
               Inl e \<Rightarrow> deploy_failed e
             | Inr _ \<Rightarrow> Log (Out [JStr ''SimpleStorage deployed to:'', JStr a]) (Return 0))))"

lemma run_deploy_failed [simp]: "run enc fs (deploy_failed e) l = Some (1, [ErrVal e], l)"
  by (simp add: deploy_failed_def)

text \<open>
  C15: on a well-formed node with no network faults the script prints the address of a
  new SimpleStorage contract, which stores 0 once the deployment is mined, and exits 0.
\<close>

theorem deploy_publishes:
  assumes wf: "ledger_wf l"
  shows "\<exists>l'. run enc [] deploy_main l =
            Some (0, [Out [JStr ''SimpleStorage deployed to:'', JStr (contract_addr_of (ntx l))]], l')
          \<and> contracts l' (contract_addr_of (ntx l)) = Some 0 \<and> ledger_wf l'"
proof -
  obtain h a l1 where cr: "submit_create l = (h, a, l1)" by (cases "submit_create l") auto
  obtain rc l2 where aw: "await_receipt h l1 = Some (rc, l2)" and wf2: "ledger_wf l2"
    and c2: "contracts l2 a = Some 0" and a: "a = contract_addr_of (ntx l)"
    using await_created [OF wf cr] by blast
  have "run enc [] deploy_main l =
          Some (0, [Out [JStr ''SimpleStorage deployed to:'', JStr a]], l2)"
    using cr aw by (simp add: deploy_main_def)
  with wf2 c2 a show ?thesis by blast
qed

theorem deploy_publishes_witness:
  "\<exists>l'. run abi_uint256 [] deploy_main
            \<lparr>contracts = Map.empty, height = 0, mempool = [], receipts = Map.empty, ntx = 0\<rparr> =
          Some (0, [Out [JStr ''SimpleStorage deployed to:'', JStr (contract_addr_of 0)]], l')
        \<and> contracts l' (contract_addr_of 0) = Some 0 \<and> ledger_wf l'"
  using deploy_publishes [of "\<lparr>contracts = Map.empty, height = 0, mempool = [], receipts = Map.empty,
                                ntx = 0\<rparr>" abi_uint256]
  by (simp add: ledger_wf_def)

text \<open>
  C16: in every run, whatever the network does, the exit code and the output agree: exit
  code 0 with exactly the address line, or exit code 1 with exactly the error.
\<close>

theorem deploy_exit_codes:
  assumes "run enc fs deploy_main l = Some (c, ls, l')"
  shows "(c = 0 \<and> (\<exists>a. ls = [Out [JStr ''SimpleStorage deployed to:'', JStr a]]))
         \<or> (c = 1 \<and> (\<exists>e. ls = [ErrVal e]))"
  using assms
  by (auto simp: deploy_main_def split: prod.splits fault.splits sum.splits option.splits if_splits)

theorem deploy_exit_codes_witness:
  "run abi_uint256 [Down (RpcError ''connection refused'')] deploy_main
       \<lparr>contracts = Map.empty, height = 0, mempool = [], receipts = Map.empty, ntx = 0\<rparr>
     = Some (1, [ErrVal (RpcError ''connection refused'')],
             \<lparr>contracts = Map.empty, height = 0, mempool = [], receipts = Map.empty, ntx = 0\<rparr>)
   \<and> (\<exists>e. [ErrVal (RpcError ''connection refused'')] = [ErrVal e])"
proof -
  have r: "run abi_uint256 [Down (RpcError ''connection refused'')] deploy_main
       \<lparr>contracts = Map.empty, height = 0, mempool = [], receipts = Map.empty, ntx = 0\<rparr>
     = Some (1, [ErrVal (RpcError ''connection refused'')],
             \<lparr>contracts = Map.empty, height = 0, mempool = [], receipts = Map.empty, ntx = 0\<rparr>)"
    by (simp add: deploy_main_def)
  from deploy_exit_codes [OF r] r show ?thesis by simp
qed

end
