(* ===== verification/Wallet.thy ===== *)
theory Wallet
  imports Config Decimal
begin

text \<open>
  The wallet balance report of index.js lines 23--28 and the rest of module start-up.
  After the synchronous start-up of theory \<open>Config\<close>, an asynchronous function awaits
  \<^verbatim>\<open>wallet.getAddress()\<close> (local: the address is derived from the key, a parameter
  \<open>wallet_addr\<close> here) and \<^verbatim>\<open>provider.getBalance(addr)\<close> (one RPC, whose outcome
  is the parameter \<open>bal\<close>), then logs the address and
  \<^verbatim>\<open>ethers.formatEther(bal)\<close>; \<^verbatim>\<open>.catch(console.error)\<close> logs a failure instead.
  Independently, the callback of \<^verbatim>\<open>app.listen\<close> (lines 74--76) logs the port; which of
  the two comes first is up to the event loop (\<open>listen_first\<close>).

  \<^verbatim>\<open>formatEther\<close> is library code, part of the environment like the node: it is
  \<^verbatim>\<open>formatUnits(v, 18)\<close> of ethers v6, modelled as its
  string algorithm: the decimal digits of \<open>|v|\<close> padded on the left with blocks of
  zeros until longer than the number of decimals (\<open>pad_zeros\<close>, a loop whose
  termination is proved), a point inserted, leading zeros of the whole part and trailing
  zeros of the fraction trimmed, keeping one digit on each side
  (\<open>trim_lead\<close>, \<open>trim_trail\<close>). \<open>format_units_spec\<close> is the arithmetic
  reference (quotient and remainder by \<open>10^d\<close>), and \<open>parse_units\<close> a decoder of the
  text back to wei.
\<close>

subsection \<open>ethers.formatEther\<close>

definition zeros :: string where
  "zeros = replicate 128 (CHR ''0'')"

function pad_zeros :: "nat \<Rightarrow> string \<Rightarrow> string" where
  "pad_zeros d s = (if length s \<le> d then pad_zeros d (zeros @ s) else s)"
  by pat_completeness auto
termination
  by (relation "measure (\<lambda>(d, s). Suc d - length s)") (auto simp: zeros_def)

declare pad_zeros.simps [simp del]

fun trim_lead :: "string \<Rightarrow> string" where
  "trim_lead [] = []"
| "trim_lead (c # s) =
     (if c = CHR ''0'' \<and> (case s of [] \<Rightarrow> True | d # _ \<Rightarrow> d \<noteq> CHR ''.'') then trim_lead s else c # s)"

definition trim_trail :: "string \<Rightarrow> string" where
  "trim_trail s = rev (trim_lead (rev s))"

definition format_units :: "nat \<Rightarrow> int \<Rightarrow> string" where
  "format_units d v =
     (let neg = (if v < 0 then ''-'' else ''''); str = nat_to_string (nat \<bar>v\<bar>)
      in if d = 0 then neg @ str
         else
           (let str = pad_zeros d str;
                i = length str - d;
                str = take i str @ ''.'' @ drop i str
            in neg @ trim_trail (trim_lead str)))"

definition format_ether :: "int \<Rightarrow> string" where
  "format_ether v = format_units 18 v"

subsection \<open>Reference definition and decoder\<close>

fun digits_pad :: "nat \<Rightarrow> nat \<Rightarrow> string" where
  "digits_pad 0 r = []"
| "digits_pad (Suc k) r = digits_pad k (r div 10) @ [digit_char (r mod 10)]"

definition frac_text :: "string \<Rightarrow> string" where
  "frac_text f = (let g = rev (dropWhile (\<lambda>c. c = CHR ''0'') (rev f)) in if g = [] then ''0'' else g)"

definition format_units_spec :: "nat \<Rightarrow> int \<Rightarrow> string" where
  "format_units_spec d v =
     (let n = nat \<bar>v\<bar>; neg = (if v < 0 then ''-'' else '''')
      in if d = 0 then neg @ nat_to_string n
         else neg @ nat_to_string (n div 10 ^ d) @ ''.'' @ frac_text (digits_pad d (n mod 10 ^ d)))"

definition parse_units :: "nat \<Rightarrow> string \<Rightarrow> int option" where
  "parse_units d s =
     (let (sg, t) = (if s \<noteq> [] \<and> hd s = CHR ''-'' then (-1 :: int, tl s) else (1, s));
          w = takeWhile (\<lambda>c. c \<noteq> CHR ''.'') t;
          f = drop 1 (dropWhile (\<lambda>c. c \<noteq> CHR ''.'') t)
      in if CHR ''.'' \<notin> set t then map_option (\<lambda>x. sg * int (x * 10 ^ d)) (parse_nat t)
         else if d < length f then None
         else (case (parse_nat w, parse_nat f) of
                 (Some x, Some y) \<Rightarrow> Some (sg * int (x * 10 ^ d + y * 10 ^ (d - length f)))
               | _ \<Rightarrow> None))"

subsection \<open>The balance report and module start-up\<close>

definition balance_report :: "string \<Rightarrow> err + int \<Rightarrow> logline list" where
  "balance_report addr r =
     (case r of
        Inl e \<Rightarrow> [ErrVal e]
      | Inr bal \<Rightarrow> [Out [JStr ''Wallet da API:'', JStr addr],
                    Out [JStr ''Saldo da wallet:'', JStr (format_ether bal), JStr ''ETH'']])"

definition port_text :: "port \<Rightarrow> string" where
  "port_text p = (case p of PortNum n \<Rightarrow> nat_to_string n | PortText s \<Rightarrow> s)"

definition listen_msg :: "port \<Rightarrow> logline" where
  "listen_msg p = Out [JStr (''API Web3 rodando em http://localhost:'' @ port_text p)]"

definition boot ::
  "(string \<Rightarrow> bool) \<Rightarrow> (string \<Rightarrow> addr) \<Rightarrow> env \<Rightarrow> err + int \<Rightarrow> bool \<Rightarrow> startup" where
  "boot valid_key wallet_addr env bal listen_first =
     (case startup valid_key env of
        Listening cfg ls \<Rightarrow>
          (let rep = balance_report (wallet_addr (private_key cfg)) bal;
               lst = [listen_msg (listen_port cfg)]
           in Listening cfg (ls @ (if listen_first then lst @ rep else rep @ lst)))
      | r \<Rightarrow> r)"

subsection \<open>The string algorithm computes the reference\<close>

lemma pad_zeros_shape:
  "\<exists>z. pad_zeros d s = replicate z (CHR ''0'') @ s \<and> d < length (pad_zeros d s)"
proof (induction d s rule: pad_zeros.induct)
  case (1 d s)
  show ?case
  proof (cases "length s \<le> d")
    case True
    then obtain z where "pad_zeros d (zeros @ s) = replicate z (CHR ''0'') @ zeros @ s"
      and "d < length (pad_zeros d (zeros @ s))" using "1.IH" by blast
    then show ?thesis using True
      by (subst (1 2) pad_zeros.simps)
         (auto simp: zeros_def replicate_add [symmetric] intro: exI [of _ "z + 128"])
  next
    case False
    then show ?thesis by (subst (1 2) pad_zeros.simps) (auto intro: exI [of _ 0])
  qed
qed

lemma length_digits_pad [simp]: "length (digits_pad k r) = k"
  by (induction k arbitrary: r) simp_all

lemma nat_to_string_split:
  "0 < q \<Longrightarrow> r < 10 ^ k \<Longrightarrow> nat_to_string (q * 10 ^ k + r) = nat_to_string q @ digits_pad k r"
proof (induction k arbitrary: q r)
  case 0
  then show ?case by simp
next
  case (Suc k)
  let ?n = "q * 10 ^ Suc k + r"
  have "0 < q * 10 ^ k" using Suc.prems(1) by simp
  moreover have "q * 10 ^ Suc k = 10 * (q * 10 ^ k)" by simp
  ultimately have big: "\<not> ?n < 10" by linarith
  have e: "?n = r + 10 * (q * 10 ^ k)" by simp
  have d: "?n div 10 = q * 10 ^ k + r div 10" and m: "?n mod 10 = r mod 10"
    unfolding e by simp_all
  have "r div 10 < 10 ^ k" using Suc.prems(2) by (simp add: less_mult_imp_div_less mult.commute)
  then have "nat_to_string (?n div 10) = nat_to_string q @ digits_pad k (r div 10)"
    using Suc.IH [OF Suc.prems(1)] d by simp
  then show ?case using big m by (simp add: nat_to_string_big)
qed

lemma digits_pad_small:
  "0 < k \<Longrightarrow> r < 10 ^ k \<Longrightarrow>
   digits_pad k r = replicate (k - length (nat_to_string r)) (CHR ''0'') @ nat_to_string r"
proof (induction k arbitrary: r)
  case 0
  then show ?case by simp
next
  case (Suc k)
  show ?case
  proof (cases k)
    case 0
    then show ?thesis using Suc.prems by simp
  next
    case (Suc k')
    have rd: "r div 10 < 10 ^ k" using Suc.prems(2) by (simp add: less_mult_imp_div_less mult.commute)
    have ih: "digits_pad k (r div 10) =
        replicate (k - length (nat_to_string (r div 10))) (CHR ''0'') @ nat_to_string (r div 10)"
      using Suc.IH [OF _ rd] Suc by simp
    show ?thesis
    proof (cases "r < 10")
      case True
      then show ?thesis using ih Suc by (simp add: replicate_append_same)
    next
      case False
      have len: "length (nat_to_string r) = Suc (length (nat_to_string (r div 10)))"
        using False by (simp add: nat_to_string_big)
      have "length (digits_pad k (r div 10)) = k" by simp
      then have "length (nat_to_string (r div 10)) \<le> k" using ih by simp
      then show ?thesis using ih False len by (simp add: nat_to_string_big)
    qed
  qed
qed

lemma is_digit_not_point [simp]: "is_digit c \<Longrightarrow> c \<noteq> CHR ''.''"
  by (auto simp: is_digit_def char_digit_def)

lemma digits_pad_digits: "list_all is_digit (digits_pad k r)"
  by (induction k arbitrary: r) simp_all

lemma trim_lead_nonzero [simp]: "c \<noteq> CHR ''0'' \<Longrightarrow> trim_lead (c # s) = c # s"
  by simp

lemma trim_lead_zeros:
  "x \<noteq> [] \<Longrightarrow> hd x \<noteq> CHR ''.'' \<Longrightarrow> trim_lead (replicate z (CHR ''0'') @ x) = trim_lead x"
proof (induction z)
  case 0
  then show ?case by simp
next
  case (Suc z)
  have "(case replicate z (CHR ''0'') @ x of [] \<Rightarrow> True | d # _ \<Rightarrow> d \<noteq> CHR ''.'')"
    using Suc.prems by (cases z) (auto simp: neq_Nil_conv)
  then show ?case using Suc by simp
qed

lemma trim_lead_point:
  "trim_lead (replicate (Suc z) (CHR ''0'') @ CHR ''.'' # f) = CHR ''0'' # CHR ''.'' # f"
  by (induction z) simp_all

lemma takeWhile_eq_replicate: "takeWhile (\<lambda>c. c = x) xs = replicate (length (takeWhile (\<lambda>c. c = x) xs)) x"
  by (induction xs) simp_all

lemma trim_lead_fraction:
  assumes "list_all is_digit f" and "f \<noteq> []"
  shows "trim_lead (rev f @ CHR ''.'' # y) = rev (frac_text f) @ CHR ''.'' # y"
proof -
  let ?D = "dropWhile (\<lambda>c. c = CHR ''0'') (rev f)"
  let ?m = "length (takeWhile (\<lambda>c. c = CHR ''0'') (rev f))"
  have split: "rev f = replicate ?m (CHR ''0'') @ ?D"
    using takeWhile_dropWhile_id [of "\<lambda>c. c = CHR ''0''" "rev f"] takeWhile_eq_replicate by metis
  show ?thesis
  proof (cases "?D = []")
    case True
    then have "0 < ?m" using split assms(2) by (metis append_Nil2 length_greater_0_conv length_rev length_replicate)
    then obtain m' where m: "?m = Suc m'" using not0_implies_Suc by blast
    have rf: "rev f = replicate (Suc m') (CHR ''0'')" using split by (simp only: True m append_Nil2)
    have fr: "frac_text f = ''0''" using True by (simp add: frac_text_def)
    show ?thesis unfolding rf fr by (rule trans [OF trim_lead_point]) simp
  next
    case False
    have "hd ?D \<noteq> CHR ''0''" using False hd_dropWhile by blast
    moreover have "hd ?D \<in> set (rev f)" using False by (metis hd_in_set set_dropWhileD)
    then have "hd ?D \<noteq> CHR ''.''" using assms(1) by (simp add: list_all_iff)
    ultimately have "trim_lead (replicate ?m (CHR ''0'') @ ?D @ CHR ''.'' # y) = ?D @ CHR ''.'' # y"
      using False trim_lead_zeros [of "?D @ CHR ''.'' # y" ?m] by (cases ?D) simp_all
    moreover have "frac_text f = rev ?D" using False by (auto simp: frac_text_def)
    ultimately show ?thesis using split by (metis append_assoc rev_rev_ident)
  qed
qed

lemma hd_nat_to_string_nonzero: "q \<noteq> 0 \<Longrightarrow> hd (nat_to_string q) \<noteq> CHR ''0''"
  using hd_nat_to_string_zero [of q] by blast

lemma format_lead:
  assumes "0 < d"
  shows "trim_lead (take (length (pad_zeros d (nat_to_string n)) - d) (pad_zeros d (nat_to_string n))
                    @ ''.'' @ drop (length (pad_zeros d (nat_to_string n)) - d) (pad_zeros d (nat_to_string n)))
         = nat_to_string (n div 10 ^ d) @ CHR ''.'' # digits_pad d (n mod 10 ^ d)"
proof -
  let ?q = "n div 10 ^ d" and ?r = "n mod 10 ^ d"
  let ?P = "pad_zeros d (nat_to_string n)" and ?F = "digits_pad d (n mod 10 ^ d)"
  obtain z where P: "?P = replicate z (CHR ''0'') @ nat_to_string n" and len: "d < length ?P"
    using pad_zeros_shape by blast
  have r: "?r < 10 ^ d" by simp
  have n: "n = ?q * 10 ^ d + ?r" by (rule div_mult_mod_eq [symmetric])
  show ?thesis
  proof (cases "?q = 0")
    case False
    let ?W = "nat_to_string ?q"
    have "nat_to_string n = ?W @ ?F"
      using nat_to_string_split [OF _ r, of ?q] False n by simp
    then have P': "?P = (replicate z (CHR ''0'') @ ?W) @ ?F" using P by simp
    have hd: "hd ?W \<noteq> CHR ''0''" by (rule hd_nat_to_string_nonzero [OF False])
    have "is_digit (hd ?W)"
      using nat_to_string_digits [of ?q] by (cases ?W) auto
    then have "trim_lead (replicate z (CHR ''0'') @ ?W @ CHR ''.'' # ?F) = ?W @ CHR ''.'' # ?F"
      using trim_lead_zeros [of "?W @ CHR ''.'' # ?F" z] hd by (cases ?W) simp_all
    then show ?thesis unfolding P' by simp
  next
    case True
    then have nr: "n = ?r" using n by simp
    have F: "?F = replicate (d - length (nat_to_string n)) (CHR ''0'') @ nat_to_string n"
      using digits_pad_small [OF assms r] nr by simp
    have "length (nat_to_string n) \<le> d"
    proof (rule ccontr)
      assume "\<not> length (nat_to_string n) \<le> d"
      then have "length ?F = length (nat_to_string n)" using F by simp
      then show False using \<open>\<not> length (nat_to_string n) \<le> d\<close> by simp
    qed
    moreover have "d < z + length (nat_to_string n)" using len P by simp
    ultimately have z: "z = Suc (z + length (nat_to_string n) - Suc d) + (d - length (nat_to_string n))"
      by arith
    define i where "i = z + length (nat_to_string n) - Suc d"
    note z = z [folded i_def]
    have P': "?P = replicate (Suc i) (CHR ''0'') @ ?F"
      using P F z by (simp add: replicate_add)
    show ?thesis unfolding P' using True trim_lead_point [of i ?F] by simp
  qed
qed

lemma format_units_is_spec: "format_units d v = format_units_spec d v"
proof (cases "d = 0")
  case True
  then show ?thesis by (simp add: format_units_def format_units_spec_def)
next
  case False
  let ?n = "nat \<bar>v\<bar>"
  let ?W = "nat_to_string (?n div 10 ^ d)" and ?F = "digits_pad d (?n mod 10 ^ d)"
  have Fd: "list_all is_digit ?F" "?F \<noteq> []"
    using digits_pad_digits [of d] False by (simp_all, metis length_0_conv length_digits_pad)
  have "trim_trail (?W @ CHR ''.'' # ?F) = ?W @ CHR ''.'' # frac_text ?F"
    unfolding trim_trail_def using trim_lead_fraction [OF Fd, of "rev ?W"] by simp
  then show ?thesis
    using False format_lead [of d ?n] by (simp add: format_units_def format_units_spec_def Let_def)
qed

subsection \<open>Decoding\<close>

lemma digits_value_digits_pad:
  "digits_value acc (digits_pad k r) = Some (acc * 10 ^ k + r mod 10 ^ k)"
proof (induction k arbitrary: acc r)
  case 0
  then show ?case by simp
next
  case (Suc k)
  have "r mod 10 ^ Suc k = r mod 10 + 10 * (r div 10 mod 10 ^ k)"
    by (simp add: mod_mult2_eq)
  then show ?case using Suc by (simp add: digits_value_append algebra_simps)
qed

lemma digits_value_zeros:
  "digits_value acc (replicate m (CHR ''0'')) = Some (acc * 10 ^ m)"
  by (induction m arbitrary: acc) (simp_all add: algebra_simps)

lemma frac_text_value:
  assumes "digits_value 0 f = Some x" and "f \<noteq> []"
  shows "\<exists>y. parse_nat (frac_text f) = Some y \<and> length (frac_text f) \<le> length f
             \<and> y * 10 ^ (length f - length (frac_text f)) = x"
proof -
  let ?G = "rev (dropWhile (\<lambda>c. c = CHR ''0'') (rev f))"
  let ?m = "length (takeWhile (\<lambda>c. c = CHR ''0'') (rev f))"
  have "rev f = replicate ?m (CHR ''0'') @ dropWhile (\<lambda>c. c = CHR ''0'') (rev f)"
    using takeWhile_dropWhile_id [of "\<lambda>c. c = CHR ''0''" "rev f"] takeWhile_eq_replicate by metis
  then have f: "f = ?G @ replicate ?m (CHR ''0'')"
    by (metis rev_append rev_replicate rev_rev_ident)
  show ?thesis
  proof (cases "?G = []")
    case True
    have f0: "f = replicate ?m (CHR ''0'')" using f by (simp only: True append_Nil)
    have "x = 0" using assms(1) by (subst (asm) f0) (simp add: digits_value_zeros)
    moreover have "frac_text f = ''0''" using True by (simp add: frac_text_def)
    ultimately show ?thesis using assms(2) by (simp add: parse_nat_def Suc_le_eq)
  next
    case False
    then have ft: "frac_text f = ?G" by (auto simp: frac_text_def)
    have "digits_value 0 (?G @ replicate ?m (CHR ''0'')) = Some x"
      using assms(1) by (subst (asm) f)
    then obtain g where g: "digits_value 0 ?G = Some g" and x: "x = g * 10 ^ ?m"
      by (auto simp: digits_value_append digits_value_zeros split: option.splits)
    have "length f - length ?G = ?m" using f by (metis add_diff_cancel_left' length_append length_replicate)
    moreover have "length ?G \<le> length f" using length_dropWhile_le [of _ "rev f"] by simp
    ultimately show ?thesis using ft g x False by (simp add: parse_nat_def)
  qed
qed

lemma point_notin_nat_to_string [simp]: "CHR ''.'' \<notin> set (nat_to_string n)"
  using nat_to_string_digits [of n] is_digit_not_point by (fastforce simp: list_all_iff)

lemma split_at_point:
  "CHR ''.'' \<notin> set w \<Longrightarrow> takeWhile (\<lambda>c. c \<noteq> CHR ''.'') (w @ CHR ''.'' # f) = w"
  "CHR ''.'' \<notin> set w \<Longrightarrow> dropWhile (\<lambda>c. c \<noteq> CHR ''.'') (w @ CHR ''.'' # f) = CHR ''.'' # f"
  by (induction w) auto

lemma parse_units_format_spec: "parse_units d (format_units_spec d v) = Some v"
proof -
  let ?n = "nat \<bar>v\<bar>"
  let ?sg = "if v < 0 then -1 else (1::int)"
  have sg: "?sg * int ?n = v" by simp
  let ?body = "if d = 0 then nat_to_string ?n
               else nat_to_string (?n div 10 ^ d) @ CHR ''.'' # frac_text (digits_pad d (?n mod 10 ^ d))"
  have spec: "format_units_spec d v = (if v < 0 then ''-'' else []) @ ?body"
    by (simp add: format_units_spec_def Let_def)
  have hd: "?body \<noteq> [] \<and> hd ?body \<noteq> CHR ''-''"
    by (cases "nat_to_string (?n div 10 ^ d)") (auto, metis hd_nat_to_string_not_minus list.sel(1))
  have strip: "(if format_units_spec d v \<noteq> [] \<and> hd (format_units_spec d v) = CHR ''-''
                then (-1 :: int, tl (format_units_spec d v)) else (1, format_units_spec d v)) = (?sg, ?body)"
    using hd spec by auto
  show ?thesis
  proof (cases "d = 0")
    case True
    show ?thesis unfolding parse_units_def strip using True sg by (simp add: Let_def)
  next
    case False
    let ?W = "nat_to_string (?n div 10 ^ d)" and ?F = "digits_pad d (?n mod 10 ^ d)"
    have "digits_value 0 ?F = Some (?n mod 10 ^ d)" using digits_value_digits_pad [of 0 d] by simp
    moreover have "?F \<noteq> []" using False by (metis length_0_conv length_digits_pad)
    ultimately obtain y where y: "parse_nat (frac_text ?F) = Some y"
      and lf: "length (frac_text ?F) \<le> d" and yv: "y * 10 ^ (d - length (frac_text ?F)) = ?n mod 10 ^ d"
      using frac_text_value by fastforce
    have tw: "takeWhile (\<lambda>c. c \<noteq> CHR ''.'') (?W @ CHR ''.'' # frac_text ?F) = ?W"
      by (simp add: split_at_point)
    have dw: "drop 1 (dropWhile (\<lambda>c. c \<noteq> CHR ''.'') (?W @ CHR ''.'' # frac_text ?F)) = frac_text ?F"
      by (simp add: split_at_point)
    have eq: "?n div 10 ^ d * 10 ^ d + y * 10 ^ (d - length (frac_text ?F)) = ?n"
      using yv div_mult_mod_eq [of ?n "10 ^ d"] by simp
    have "parse_units d (format_units_spec d v)
          = Some (?sg * int (?n div 10 ^ d * 10 ^ d + y * 10 ^ (d - length (frac_text ?F))))"
      unfolding parse_units_def strip using False tw dw y lf
      by (simp add: Let_def del: of_nat_add of_nat_mult)
    then show ?thesis by (simp only: eq sg)
  qed
qed

subsection \<open>Properties of formatEther\<close>

lemma frac_text_shape:
  assumes "list_all is_digit f" and "f \<noteq> []"
  shows "frac_text f \<noteq> [] \<and> length (frac_text f) \<le> length f \<and> list_all is_digit (frac_text f)
         \<and> (last (frac_text f) = CHR ''0'' \<longrightarrow> frac_text f = ''0'')"
proof (cases "dropWhile (\<lambda>c. c = CHR ''0'') (rev f) = []")
  case True
  then show ?thesis using assms(2) by (simp add: frac_text_def is_digit_def Suc_le_eq)
next
  case False
  let ?D = "dropWhile (\<lambda>c. c = CHR ''0'') (rev f)"
  have ft: "frac_text f = rev ?D" using False by (auto simp: frac_text_def)
  have "hd ?D \<noteq> CHR ''0''" using False hd_dropWhile by blast
  then have "last (rev ?D) \<noteq> CHR ''0''" using False by (simp add: last_rev)
  moreover have "length ?D \<le> length f" using length_dropWhile_le [of _ "rev f"] by simp
  moreover have "list_all is_digit ?D"
    using assms(1) by (auto simp: list_all_iff dest: set_dropWhileD)
  ultimately show ?thesis using ft False by (simp add: list_all_rev)
qed

text \<open>
  The string algorithm of \<^verbatim>\<open>formatEther\<close> equals the arithmetic reference: the
  whole part is \<open>|v| div 10^18\<close> in decimal and the fraction the 18-digit remainder
  without its trailing zeros (or \<open>0\<close>).
\<close>

lemma format_ether_equiv: "format_ether v = format_units_spec 18 v"
  by (simp add: format_ether_def format_units_is_spec)

text \<open>
  The balance line is well formed: an optional minus sign, the whole ether as a
  canonical decimal numeral, a point, and between 1 and 18 fractional digits with no
  trailing zero other than a lone \<open>0\<close>.
\<close>

lemma format_ether_shape:
  "\<exists>w f. format_ether v = (if v < 0 then ''-'' else []) @ w @ CHR ''.'' # f
         \<and> canonical_nat_text w \<and> w = nat_to_string (nat \<bar>v\<bar> div 10 ^ 18)
         \<and> 1 \<le> length f \<and> length f \<le> 18 \<and> list_all is_digit f
         \<and> (last f = CHR ''0'' \<longrightarrow> f = ''0'')"
proof -
  let ?F = "digits_pad 18 (nat \<bar>v\<bar> mod 10 ^ 18)"
  have "list_all is_digit ?F" "?F \<noteq> []"
    using digits_pad_digits [of 18] by (simp_all, metis length_0_conv length_digits_pad zero_neq_numeral)
  from frac_text_shape [OF this] have sh: "frac_text ?F \<noteq> [] \<and> length (frac_text ?F) \<le> 18
      \<and> list_all is_digit (frac_text ?F) \<and> (last (frac_text ?F) = CHR ''0'' \<longrightarrow> frac_text ?F = ''0'')"
    by simp
  show ?thesis
    using sh canonical_nat_to_string
    by (auto simp: format_ether_def format_units_is_spec format_units_spec_def Let_def Suc_le_eq)
qed

text \<open>
  The logged balance is exact: decoding the text of \<^verbatim>\<open>formatEther(v)\<close> at 18
  decimals gives back \<open>v\<close> wei.
\<close>

lemma format_ether_roundtrip: "parse_units 18 (format_ether v) = Some v"
  unfolding format_ether_def format_units_is_spec by (rule parse_units_format_spec)

end
