(* ===== verification/Spec2Isabelle.thy ===== *)
theory Spec2Isabelle
  imports Http Deploy Wallet
begin

text \<open>
  \<^bold>\<open>A verification model of the web3-lab HTTP gateway.\<close>

  \<^emph>\<open>The program.\<close> \<^verbatim>\<open>src/api/src/index.js\<close> is an Express server over one deployed
  SimpleStorage contract. At start-up it loads \<^verbatim>\<open>.env\<close> with \<^verbatim>\<open>dotenv\<close>
  (line 1), then (lines 9--35) reads \<^verbatim>\<open>RPC_URL\<close>,
  \<^verbatim>\<open>PRIVATE_KEY\<close> and \<^verbatim>\<open>SIMPLE_STORAGE_ADDRESS\<close>, exits with code 1 when one is
  missing, builds an ethers provider, wallet and contract binding, and listens on
  \<^verbatim>\<open>PORT\<close> or 3001 (lines 73--77). \<^verbatim>\<open>GET /value\<close> (lines 38--46) awaits
  \<^verbatim>\<open>contract.get()\<close> and answers the value as a decimal string; \<^verbatim>\<open>POST /value\<close>
  (lines 49--71) checks that the body has a \<^verbatim>\<open>value\<close> field (400 otherwise), awaits
  \<^verbatim>\<open>contract.set(value)\<close> and \<^verbatim>\<open>tx.wait()\<close>, and answers the transaction hash
  and block number; every exception becomes a 500 with a fixed message, the detail going
  to the log. \<^verbatim>\<open>src/contracts/scripts/deploy-simple-storage.js\<close> deploys the contract
  once. The components interact only through the ledger: the gateway's handlers call the
  contract through the node, and the deploy script creates the contract they call. The
  Express semantics modelled are those of Express 5 (router 2, body-parser 2); the
  repository pins no version under \<^verbatim>\<open>src/\<close>, and the findings say where Express 4
  differs.

  \<^emph>\<open>The theories.\<close>
  \<^item> \<open>Prelude\<close>: the values the gateway exchanges (JSON, responses, the exceptions the
    handlers catch, console lines), property read on a parsed object, shared lemmas, and
    the collection \<open>model_defs\<close>.
  \<^item> \<open>Decimal\<close>: \<^verbatim>\<open>value.toString()\<close> of line 41 (\<open>int_to_string\<close>) and the
    client's decoder \<open>parse_int\<close>; the text is canonical and decodes back, and no other
    canonical text does (C7).
  \<^item> \<open>Config\<close>: module initialisation (\<open>startup\<close>, lines 9--21 and 73), with the
    exit on a falsy variable (C8) and the configuration the server runs with (C9);
    \<open>dotenv_config\<close> is line 1, the \<^verbatim>\<open>.env\<close> file merged under the process
    environment without overriding it, so that a variable exported empty shadows the
    file (C23).
  \<^item> \<open>Ledger\<close>: the remote side. SimpleStorage's \<^verbatim>\<open>get\<close>/\<^verbatim>\<open>set\<close>
    (\<open>storage_get\<close>, \<open>storage_set\<close>, modelled from the specification: the contract
    source is not under \<^verbatim>\<open>src/\<close>), and the node: \<open>submit\<close> puts a signed set
    transaction in the pending pool under a fresh hash, \<open>include_tx\<close>/\<open>mine_one\<close>
    mine one transaction per block in order, \<open>await_receipt\<close> is \<^verbatim>\<open>tx.wait()\<close>.
    Its invariant \<open>ledger_wf\<close> (pending hashes distinct, unmined, issued) is kept by
    every operation, and \<open>await_submitted\<close> is the node's contract with the gateway.
    \<open>abi_uint256\<close> is ethers' \<^verbatim>\<open>uint256\<close> argument coder.
  \<^item> \<open>Program\<close>: the execution model both scripts share. An \<^verbatim>\<open>async\<close> function is
    a program \<open>'r prog\<close> whose constructors are its awaits on the blockchain client
    (\<open>CallGet\<close>, \<open>CallSet\<close>, \<open>CallWait\<close> for the gateway; \<open>CallFactory\<close>,
    \<open>CallDeploy\<close>, \<open>CallWaitDeploy\<close> for the deploy script) and its console output
    (\<open>Log\<close>), each await carrying its continuation. \<open>run\<close> executes a program
    against the ledger with an explicit list of network faults (\<open>Ok\<close>; \<open>Down\<close>:
    the call never reached the node; \<open>Lost\<close>: it was executed and the reply lost);
    \<open>None\<close> means the program never finishes. \<open>all_results\<close> states a property
    of every value a program can return and is the interface for the safety lemmas.
  \<^item> \<open>Gateway\<close>: the handlers \<open>get_value\<close> and \<open>post_value\<close> (with
    \<open>destructure_value\<close> for line 51 and \<open>update_failed\<close> for the
    \<^verbatim>\<open>catch\<close>) and the dispatch \<open>app\<close>, written in the source's order and with
    its branches, including the router's own replies: \<^verbatim>\<open>HEAD\<close> through the
    \<^verbatim>\<open>GET\<close> route, \<^verbatim>\<open>OPTIONS\<close> answered with the allowed methods
    (\<open>options_reply\<close>), 404 otherwise.
  \<^item> \<open>Server\<close>: the Node.js event loop running many handlers at once. A state
    \<open>server\<close> holds the shared ledger, the handler of every in-flight request
    (its remaining program), the requests received, the responses sent in order and the
    console. The step relation \<open>srv_step\<close> lets a request arrive, or one in-flight
    handler advance by one await (each outcome of the network a rule), or the node mine a
    block; \<open>reachable\<close> is its closure from a node. The executable scheduler
    \<open>sched_step\<close>/\<open>sched_run\<close> generates exactly these steps from a list of
    events and computes the concrete runs. By rule induction, with the handlers' facts
    (\<open>sets_within_app\<close>, \<open>app_reads\<close>): the contract only ever holds its initial
    value or a value some request asked for (C18), and every value a read reports is one
    of those (C25). The lemma \<open>concurrent_posts_race\<close> is a concrete interleaving of
    two writes in which the later request's transaction is mined first.
  \<^item> \<open>Register\<close>: the specification's contract as an abstract service. \<open>spec_api\<close>
    maps the stored value and a request to the answer a client sees (\<open>answer_of\<close>)
    and the new value; \<open>serve\<close> runs requests one after another, and C19 proves it
    refines \<open>spec_serve\<close> on a quiescent node without faults. \<open>api_shape\<close> is the
    interface table of the specification.
  \<^item> \<open>Http\<close>: lines 6--7, \<^verbatim>\<open>express()\<close> and \<^verbatim>\<open>app.use(express.json())\<close>
    ahead of the routes (\<open>handle\<close>, \<open>body_parser\<close>): every response of the whole
    gateway is of an interface type, the \<^verbatim>\<open>OPTIONS\<close> reply or the parser's error page
    (C20); a JSON body that is not an object or array is refused with a 400 error page
    before any route (C21); an empty JSON body is a 400 from the handler and a non-JSON
    body a 500 (C22). \<open>http_exchange\<close> adds what Express puts on the wire
    (\<open>send_wire\<close>: no body for \<^verbatim>\<open>HEAD\<close>); end to end, a \<^verbatim>\<open>POST\<close> of any
    \<^verbatim>\<open>uint256\<close> as a decimal string is read back verbatim by the next
    \<^verbatim>\<open>GET\<close> (C24).
  \<^item> \<open>Wallet\<close>: the balance report of lines 23--28 and the listen callback of lines
    74--76, composed with start-up in \<open>boot\<close>. \<^verbatim>\<open>ethers.formatEther\<close>, which line
    27 calls, is library code; it is modelled as the environment by ethers' string
    algorithm (\<open>format_units\<close>: pad, insert the point, trim), with lemmas that it
    equals an arithmetic reference and is exact.
  \<^item> \<open>Deploy\<close>: \<^verbatim>\<open>main()\<close> of the deploy script and its \<^verbatim>\<open>.catch\<close>
    (\<open>deploy_main\<close>, \<open>deploy_failed\<close>), whose result is the exit code: it
    publishes a contract storing 0 at the printed address (C15), and its exit code and
    output agree in every run (C16).

  \<^emph>\<open>What is proved.\<close> The write path answers 200 with the submitted transaction's hash
  and the block that mined it and leaves the value stored (C1); the read path answers the
  stored value (C2) and answers 500 on every failure (C5) without touching the ledger
  (C10); a body without \<^verbatim>\<open>value\<close> is a 400 before any call (C3), an unparsed body a
  500 (C12); no 500 leaks an exception's text (C4); a request submits at most one
  transaction, and only a \<^verbatim>\<open>POST\<close> with a value does (C6); a number above
  \<^verbatim>\<open>Number.MAX_SAFE_INTEGER\<close> is refused with a 500 although the same value is
  accepted as a string (C13); a 500 may follow a write that did happen (C11); a present
  value the binding rejects is a 500, not a 400 (C14). Below, C17 composes the deploy
  script and the gateway: a gateway pointed at the printed address reads
  \<^verbatim>\<open>"0"\<close>.

  \<^emph>\<open>Bounds and fuel.\<close> No fuel is needed: \<open>run\<close> is primitive recursive over the
  program, and the one loop, \<open>mine_until\<close>, terminates on the length of the pending
  pool; \<open>None\<close> from \<open>run\<close> is a wait for a transaction the node never received,
  which neither script performs. \<open>pad_zeros\<close> of \<open>formatEther\<close> is a loop whose
  termination is proved by the measure \<open>d + 1 - length s\<close>. Integers are unbounded
  (\<^verbatim>\<open>bigint\<close>); the contract's argument range is the binding's business and is a
  parameter \<open>enc\<close> of the model (\<open>abi_uint256\<close> is the \<^verbatim>\<open>uint256\<close> instance
  used in the concrete runs: a decimal string or a safe JavaScript integer in
  \<open>[0, 2^256)\<close>).

  \<^emph>\<open>Not modelled.\<close> The \<^verbatim>\<open>require\<close> lines 2--4, which only load modules;
  the line syntax of \<^verbatim>\<open>.env\<close> (the file is given by its parsed pairs) and any
  console output of \<^verbatim>\<open>dotenv\<close> itself; the HTTP transport, headers, and
  \<^verbatim>\<open>JSON.parse\<close> itself (a parameter of \<open>body_parser\<close>), and the parser's 415
  answer to an unsupported charset; a failing \<^verbatim>\<open>app.listen\<close> (port in use); the
  derivation of the wallet address from the key, and the ENS lookup ethers attempts for
  a \<^verbatim>\<open>SIMPLE_STORAGE_ADDRESS\<close> that is not a hex address; gas, nonces, signatures
  and reverted receipts inside ethers (a reverted set would reach the same \<^verbatim>\<open>catch\<close>);
  hexadecimal and padded strings, which ethers' \<^verbatim>\<open>getBigInt\<close> also accepts
  (\<open>abi_uint256\<close> takes decimal strings only); Hardhat's configuration and network
  selection for the deploy script; liveness under a scheduler (the model has no fairness
  assumption, and no handler of the program can block another).
\<close>

text \<open>
  C17: after the deploy script succeeds on a well-formed node, a gateway whose
  \<^verbatim>\<open>SIMPLE_STORAGE_ADDRESS\<close> is the printed address answers \<^verbatim>\<open>GET /value\<close> with
  \<^verbatim>\<open>"0"\<close>.
\<close>

theorem deployed_contract_reads_zero:
  assumes wf: "ledger_wf l"
    and dep: "run enc [] deploy_main l = Some (c, [Out [JStr m, JStr a]], l')"
  shows "run enc [] (app a \<lparr>req_method = GET, path = ''/value'', req_body = None\<rparr>) l'
           = Some (json_response 200 (JObj [(''value'', JStr ''0'')]), [], l')"
proof -
  obtain l2 where run2: "run enc [] deploy_main l =
      Some (0, [Out [JStr ''SimpleStorage deployed to:'', JStr (contract_addr_of (ntx l))]], l2)"
    and c2: "contracts l2 (contract_addr_of (ntx l)) = Some 0"
  proof -
    obtain h a1 l1 where cr: "submit_create l = (h, a1, l1)" by (cases "submit_create l") auto
    obtain rc l2 where aw: "await_receipt h l1 = Some (rc, l2)"
      and c2: "contracts l2 a1 = Some 0" and a1: "a1 = contract_addr_of (ntx l)"
      using await_created [OF wf cr] by blast
    have "run enc [] deploy_main l =
            Some (0, [Out [JStr ''SimpleStorage deployed to:'', JStr a1]], l2)"
      using cr aw by (simp add: deploy_main_def)
    with c2 a1 that show ?thesis by blast
  qed
  have "a = contract_addr_of (ntx l)" and "l' = l2"
    using dep run2 by simp_all
  with c2 have stored: "contracts l' a = Some 0" by simp
  have "value_route ''/value''" by (simp add: value_route_def lower_ascii_def)
  then have "app a \<lparr>req_method = GET, path = ''/value'', req_body = None\<rparr> = get_value a"
    by (simp add: app_def)
  moreover have "int_to_string 0 = ''0''" by (simp add: int_to_string_def)
  ultimately show ?thesis
    using stored by (simp add: run_get_value storage_get_def)
qed

theorem deployed_contract_reads_zero_witness:
  "run abi_uint256 [] (app (contract_addr_of 0) \<lparr>req_method = GET, path = ''/value'', req_body = None\<rparr>)
      (include_tx \<lparr>tx_hash = tx_hash_of 0, tx_to = contract_addr_of 0, tx_arg = 0, tx_create = True\<rparr>
        \<lparr>contracts = Map.empty, height = 0, mempool = [], receipts = Map.empty, ntx = 1\<rparr>)
    = Some (json_response 200 (JObj [(''value'', JStr ''0'')]), [],
            include_tx \<lparr>tx_hash = tx_hash_of 0, tx_to = contract_addr_of 0, tx_arg = 0, tx_create = True\<rparr>
              \<lparr>contracts = Map.empty, height = 0, mempool = [], receipts = Map.empty, ntx = 1\<rparr>)"
proof -
  let ?l0 = "\<lparr>contracts = Map.empty, height = 0, mempool = [], receipts = Map.empty, ntx = 0\<rparr>
             :: ledger"
  let ?l1 = "include_tx \<lparr>tx_hash = tx_hash_of 0, tx_to = contract_addr_of 0, tx_arg = 0, tx_create = True\<rparr>
              \<lparr>contracts = Map.empty, height = 0, mempool = [], receipts = Map.empty, ntx = 1\<rparr>"
  have wf: "ledger_wf ?l0" by (simp add: ledger_wf_def)
  have dep: "run abi_uint256 [] deploy_main ?l0 =
      Some (0, [Out [JStr ''SimpleStorage deployed to:'', JStr (contract_addr_of 0)]], ?l1)"
    by (simp add: deploy_main_def submit_create_def Let_def await_receipt_def mine_until.simps
        mine_one_def include_tx_def)
  show ?thesis using deployed_contract_reads_zero [OF wf dep] .
qed

end
